theory Spec2Isabelle
  imports Main "HOL-Library.Word"
begin

section \<open>JavaScript strings\<close>

text \<open>
  A JavaScript string is a sequence of UTF-16 code units; \<open>s.length\<close> counts code units.
  String literals of the source are ASCII and are written through \<open>js\<close>.
\<close>

type_synonym cu = "16 word"
type_synonym jsstring = "cu list"

definition js :: "string \<Rightarrow> jsstring" where
  "js s = map of_char s"

text \<open>\<open>WhiteSpace\<close> and \<open>LineTerminator\<close> of ECMAScript: what \<open>trim\<close> strips and \<open>\s\<close> matches.\<close>

definition isWhiteSpace :: "cu \<Rightarrow> bool" where
  "isWhiteSpace c \<longleftrightarrow>
     c = 0x09 \<or> c = 0x0A \<or> c = 0x0B \<or> c = 0x0C \<or> c = 0x0D \<or> c = 0x20 \<or> c = 0xA0 \<or>
     c = 0x1680 \<or> (0x2000 \<le> c \<and> c \<le> 0x200A) \<or> c = 0x2028 \<or> c = 0x2029 \<or>
     c = 0x202F \<or> c = 0x205F \<or> c = 0x3000 \<or> c = 0xFEFF"

definition trim :: "jsstring \<Rightarrow> jsstring" where
  "trim s = rev (dropWhile isWhiteSpace (rev (dropWhile isWhiteSpace s)))"

definition startsWith :: "jsstring \<Rightarrow> jsstring \<Rightarrow> bool" where
  "startsWith s p \<longleftrightarrow> take (length p) s = p"

fun includesStr :: "jsstring \<Rightarrow> jsstring \<Rightarrow> bool" where
  "includesStr [] p \<longleftrightarrow> p = []"
| "includesStr (c # s) p \<longleftrightarrow> startsWith (c # s) p \<or> includesStr s p"

text \<open>\<open>xs.join(sep)\<close>.\<close>

fun join :: "jsstring \<Rightarrow> jsstring list \<Rightarrow> jsstring" where
  "join sep [] = []"
| "join sep [x] = x"
| "join sep (x # y # ys) = x @ sep @ join sep (y # ys)"

text \<open>Number to string inside a template literal, for the integers the source prints.\<close>

definition digit :: "nat \<Rightarrow> cu" where
  "digit d = of_nat (48 + d)"

function showNat :: "nat \<Rightarrow> jsstring" where
  "showNat n = (if n < 10 then [digit n] else showNat (n div 10) @ [digit (n mod 10)])"
  by pat_completeness auto
termination
  by (relation "measure id") auto

declare showNat.simps [simp del]

definition showInt :: "int \<Rightarrow> jsstring" where
  "showInt i = (if i < 0 then js ''-'' @ showNat (nat (- i)) else showNat (nat i))"

text \<open>
  \<open>Buffer.byteLength(s, 'utf8')\<close>: one byte below U+0080, two below U+0800, four for a
  surrogate pair, three for every other code unit (a lone surrogate is encoded as U+FFFD).
\<close>

definition isHighSurrogate :: "cu \<Rightarrow> bool" where
  "isHighSurrogate c \<longleftrightarrow> 0xD800 \<le> c \<and> c \<le> 0xDBFF"

definition isLowSurrogate :: "cu \<Rightarrow> bool" where
  "isLowSurrogate c \<longleftrightarrow> 0xDC00 \<le> c \<and> c \<le> 0xDFFF"

definition unitBytes :: "cu \<Rightarrow> nat" where
  "unitBytes c = (if c < 0x80 then 1 else if c < 0x800 then 2 else 3)"

fun byteLength :: "jsstring \<Rightarrow> nat" where
  "byteLength [] = 0"
| "byteLength [c] = unitBytes c"
| "byteLength (c # d # s) =
     (if isHighSurrogate c \<and> isLowSurrogate d then 4 + byteLength s
      else unitBytes c + byteLength (d # s))"

section \<open>Regular expressions of the source\<close>

text \<open>
  Every pattern of \<open>security.ts\<close> that decides a verdict or rewrites output is a sequence
  of greedily quantified character classes, possibly closed by \<open>$\<close>. \<open>Rep C lo hi\<close> is the
  class \<open>C\<close> repeated at least \<open>lo\<close> and at most \<open>hi\<close> times (\<open>None\<close>: unbounded).
  \<open>match_items\<close> is the backtracking matcher at one start position: a quantifier first takes
  the longest run allowed and gives characters back one at a time while the rest of the
  pattern fails. It returns the length of the match.
\<close>

datatype item = Rep "cu \<Rightarrow> bool" nat "nat option" | End

primrec backoff :: "(jsstring \<Rightarrow> nat option) \<Rightarrow> jsstring \<Rightarrow> nat \<Rightarrow> nat \<Rightarrow> nat option" where
  "backoff cont s lo 0 =
     (case cont (drop lo s) of Some n \<Rightarrow> Some (lo + n) | None \<Rightarrow> None)"
| "backoff cont s lo (Suc d) =
     (case cont (drop (lo + Suc d) s) of
        Some n \<Rightarrow> Some (lo + Suc d + n)
      | None \<Rightarrow> backoff cont s lo d)"

primrec match_items :: "item list \<Rightarrow> jsstring \<Rightarrow> nat option" where
  "match_items [] = (\<lambda>s. Some 0)"
| "match_items (it # its) =
     (\<lambda>s. case it of
         End \<Rightarrow> (if s = [] then match_items its s else None)
       | Rep C lo hi \<Rightarrow>
           (let run = length (takeWhile C s);
                kmax = (case hi of None \<Rightarrow> run | Some h \<Rightarrow> min h run)
            in if kmax < lo then None else backoff (match_items its) s lo (kmax - lo)))"

text \<open>
  \<open>s.replace(re, r)\<close> for a global pattern and a replacement without \<open>$\<close>: scan from the
  left, replace the match found at the first position that has one, continue behind it
  (one code unit further after an empty match).
\<close>

fun replaceAll :: "(jsstring \<Rightarrow> nat option) \<Rightarrow> jsstring \<Rightarrow> jsstring \<Rightarrow> jsstring" where
  "replaceAll m r [] = (case m [] of Some _ \<Rightarrow> r | None \<Rightarrow> [])"
| "replaceAll m r (c # s) =
     (case m (c # s) of
        None \<Rightarrow> c # replaceAll m r s
      | Some 0 \<Rightarrow> r @ c # replaceAll m r s
      | Some (Suc k) \<Rightarrow> r @ replaceAll m r (drop k s))"

text \<open>\<open>re.test(s)\<close> for a pattern object created at the call (\<open>lastIndex\<close> is 0).\<close>

fun regexTest :: "(jsstring \<Rightarrow> nat option) \<Rightarrow> jsstring \<Rightarrow> bool" where
  "regexTest m [] \<longleftrightarrow> m [] \<noteq> None"
| "regexTest m (c # s) \<longleftrightarrow> m (c # s) \<noteq> None \<or> regexTest m s"

text \<open>Character classes.\<close>

definition isDigit :: "cu \<Rightarrow> bool" where
  "isDigit c \<longleftrightarrow> 0x30 \<le> c \<and> c \<le> 0x39"

definition isLower :: "cu \<Rightarrow> bool" where
  "isLower c \<longleftrightarrow> 0x61 \<le> c \<and> c \<le> 0x7A"

definition isUpper :: "cu \<Rightarrow> bool" where
  "isUpper c \<longleftrightarrow> 0x41 \<le> c \<and> c \<le> 0x5A"

definition isLetter :: "cu \<Rightarrow> bool" where
  "isLetter c \<longleftrightarrow> isLower c \<or> isUpper c"

definition isAlnum :: "cu \<Rightarrow> bool" where
  "isAlnum c \<longleftrightarrow> isLetter c \<or> isDigit c"

definition oneOf :: "string \<Rightarrow> cu \<Rightarrow> bool" where
  "oneOf cs c \<longleftrightarrow> c \<in> set (js cs)"

text \<open>
  The \<open>i\<close> flag without the \<open>u\<close> flag compares canonicalised code units; a code unit
  outside ASCII never canonicalises to an ASCII letter, so an ASCII pattern letter matches
  exactly its two ASCII cases.
\<close>

definition upperAscii :: "cu \<Rightarrow> cu" where
  "upperAscii c = (if isLower c then c - 0x20 else c)"

definition one :: "(cu \<Rightarrow> bool) \<Rightarrow> item" where
  "one C = Rep C 1 (Some 1)"

definition lit :: "string \<Rightarrow> item list" where
  "lit s = map (\<lambda>p. one (\<lambda>c. c = of_char p)) s"

definition liti :: "string \<Rightarrow> item list" where
  "liti s = map (\<lambda>p. one (\<lambda>c. upperAscii c = upperAscii (of_char p))) s"

definition star :: "(cu \<Rightarrow> bool) \<Rightarrow> item" where
  "star C = Rep C 0 None"

definition plus :: "(cu \<Rightarrow> bool) \<Rightarrow> item" where
  "plus C = Rep C 1 None"

section \<open>SecurityValidator (security.ts)\<close>

record verdict =
  isValid :: bool
  reason :: "jsstring option"

definition valid :: verdict where
  "valid = \<lparr>isValid = True, reason = None\<rparr>"

definition invalid :: "jsstring \<Rightarrow> verdict" where
  "invalid r = \<lparr>isValid = False, reason = Some r\<rparr>"

datatype language = Python | JavaScript

definition MAX_CODE_LENGTH :: nat where "MAX_CODE_LENGTH = 50000"
definition MAX_FILE_SIZE :: nat where "MAX_FILE_SIZE = 10 * 1024 * 1024"
definition MAX_FILENAME_LENGTH :: nat where "MAX_FILENAME_LENGTH = 255"

subsection \<open>validateCode\<close>

text \<open>
  The logger is an external collaborator; the warnings a validation emits are returned
  beside the verdict. \<open>DANGEROUS_PATTERNS\<close> are 22 shared pattern objects with the \<open>g\<close>
  flag, so the outcome of \<open>pattern.test(code)\<close> depends on the \<open>lastIndex\<close> left by earlier
  calls: the outcome for the i-th pattern is the parameter \<open>hit\<close>.
\<close>

datatype warning =
  DangerousPattern nat
| RestrictedImport jsstring
| DangerousNodeOp jsstring

definition restrictedImports :: "jsstring list" where
  "restrictedImports = [js ''__import__'', js ''importlib'', js ''reload'']"

definition validatePythonCode :: "jsstring \<Rightarrow> verdict \<times> warning list" where
  "validatePythonCode code =
     (valid, map RestrictedImport (filter (includesStr code) restrictedImports))"

definition dangerousNodeOps :: "jsstring list" where
  "dangerousNodeOps =
     [js ''require(\"fs\")'', js ''require(\"child_process\")'', js ''require(\"os\")'',
      js ''require(\"cluster\")'', js ''process.exit'', js ''process.kill'']"

definition validateJavaScriptCode :: "jsstring \<Rightarrow> verdict \<times> warning list" where
  "validateJavaScriptCode code =
     (valid, map DangerousNodeOp (filter (includesStr code) dangerousNodeOps))"

definition validateCode ::
  "(nat \<Rightarrow> jsstring \<Rightarrow> bool) \<Rightarrow> jsstring \<Rightarrow> language \<Rightarrow> verdict \<times> warning list" where
  "validateCode hit code lang =
     (if length code > MAX_CODE_LENGTH then
        (invalid (js ''Code exceeds maximum length of '' @ showNat MAX_CODE_LENGTH
                  @ js '' characters''), [])
      else if trim code = [] then (invalid (js ''Code cannot be empty''), [])
      else
        let ws = map DangerousPattern (filter (\<lambda>i. hit i code) [0..<22]);
            (v, ws') = (case lang of
                          Python \<Rightarrow> validatePythonCode code
                        | JavaScript \<Rightarrow> validateJavaScriptCode code)
        in (v, ws @ ws'))"

subsection \<open>validateFilePath\<close>

definition dangerousPaths :: "jsstring list" where
  "dangerousPaths =
     [js ''/etc'', js ''/root'', js ''/usr'', js ''/sys'', js ''/proc'', js ''/dev'']"

definition validateFilePath :: "jsstring \<Rightarrow> verdict" where
  "validateFilePath path =
     (if length path > MAX_FILENAME_LENGTH then
        invalid (js ''File path exceeds maximum length of '' @ showNat MAX_FILENAME_LENGTH
                 @ js '' characters'')
      else if trim path = [] then invalid (js ''File path cannot be empty'')
      else if includesStr path (js ''..'') then
        invalid (js ''Directory traversal not allowed in file paths'')
      else
        (case find (startsWith path) dangerousPaths of
           Some dangerous \<Rightarrow>
             invalid (js ''Access to system directory '' @ dangerous @ js '' is not allowed'')
         | None \<Rightarrow>
             if includesStr path [0] then invalid (js ''Null bytes not allowed in file paths'')
             else valid))"

subsection \<open>validateFileContent\<close>

text \<open>
  The four secret patterns are created at each call, so \<open>test\<close> asks whether the pattern
  matches anywhere. The optional group of the private-key pattern is written as its two
  alternatives (with and without \<open>RSA\s+\<close>), which match the same strings.
\<close>

definition isBase64 :: "cu \<Rightarrow> bool" where
  "isBase64 c \<longleftrightarrow> isAlnum c \<or> c = 0x2B \<or> c = 0x2F"

definition privateKeyRsa :: "item list" where
  "privateKeyRsa =
     liti ''-----BEGIN'' @ [plus isWhiteSpace] @ liti ''RSA'' @ [plus isWhiteSpace] @
     liti ''PRIVATE'' @ [plus isWhiteSpace] @ liti ''KEY-----''"

definition privateKeyPlain :: "item list" where
  "privateKeyPlain =
     liti ''-----BEGIN'' @ [plus isWhiteSpace] @
     liti ''PRIVATE'' @ [plus isWhiteSpace] @ liti ''KEY-----''"

definition base64Run :: "item list" where
  "base64Run = [Rep isBase64 32 None, Rep (\<lambda>c. c = 0x3D) 0 (Some 2)]"

definition openaiKey :: "item list" where
  "openaiKey = lit ''sk-'' @ [Rep isAlnum 48 (Some 48)]"

definition githubToken :: "item list" where
  "githubToken = lit ''ghp_'' @ [Rep isAlnum 36 (Some 36)]"

definition contentSecretPatterns :: "item list list" where
  "contentSecretPatterns = [privateKeyRsa, privateKeyPlain, base64Run, openaiKey, githubToken]"

definition validateFileContent :: "jsstring \<Rightarrow> verdict" where
  "validateFileContent content =
     (let contentSize = byteLength content in
      if contentSize > MAX_FILE_SIZE then
        invalid (js ''File content exceeds maximum size of '' @ showNat MAX_FILE_SIZE
                 @ js '' bytes'')
      else if list_ex (\<lambda>pattern. regexTest (match_items pattern) content) contentSecretPatterns
      then invalid (js ''File content contains potential secrets'')
      else valid)"

subsection \<open>validatePackages\<close>

definition isPyNameChar :: "cu \<Rightarrow> bool" where
  "isPyNameChar c \<longleftrightarrow> isAlnum c \<or> oneOf ''._-'' c"

definition pythonPattern :: "jsstring \<Rightarrow> bool" where
  "pythonPattern s \<longleftrightarrow>
     match_items [one isAlnum, star isPyNameChar, one isAlnum, End] s \<noteq> None \<or>
     match_items [one isAlnum, End] s \<noteq> None"

definition isNpmFirst :: "cu \<Rightarrow> bool" where
  "isNpmFirst c \<longleftrightarrow> isAlnum c \<or> oneOf ''-~'' c"

definition isNpmChar :: "cu \<Rightarrow> bool" where
  "isNpmChar c \<longleftrightarrow> isAlnum c \<or> oneOf ''-._~'' c"

definition npmPattern :: "jsstring \<Rightarrow> bool" where
  "npmPattern s \<longleftrightarrow>
     match_items (lit ''@'' @ [one isNpmFirst, star isNpmChar] @ lit ''/'' @
                  [one isNpmFirst, star isNpmChar, End]) s \<noteq> None \<or>
     match_items [one isNpmFirst, star isNpmChar, End] s \<noteq> None"

definition suspiciousPatterns :: "item list list" where
  "suspiciousPatterns = [liti ''malware'', liti ''backdoor'', liti ''virus'', liti ''trojan'']"

definition validatePackageName :: "jsstring \<Rightarrow> language \<Rightarrow> verdict" where
  "validatePackageName packageName lang =
     (if packageName = [] \<or> trim packageName = [] then
        invalid (js ''Package name cannot be empty'')
      else if length packageName > 100 then invalid (js ''Package name too long'')
      else if lang = Python \<and> \<not> pythonPattern packageName then
        invalid (js ''Invalid Python package name: '' @ packageName)
      else if lang = JavaScript \<and> \<not> npmPattern packageName then
        invalid (js ''Invalid npm package name: '' @ packageName)
      else if list_ex (\<lambda>pattern. regexTest (match_items pattern) packageName) suspiciousPatterns
      then invalid (js ''Package name appears suspicious: '' @ packageName)
      else valid)"

definition validatePackages :: "jsstring list \<Rightarrow> language \<Rightarrow> verdict" where
  "validatePackages packages lang =
     (if length packages = 0 then invalid (js ''Package list cannot be empty'')
      else if length packages > 50 then
        invalid (js ''Too many packages requested (maximum 50)'')
      else
        (case find (\<lambda>validation. \<not> isValid validation)
                (map (\<lambda>pkg. validatePackageName pkg lang) packages) of
           Some validation \<Rightarrow> validation
         | None \<Rightarrow> valid))"

subsection \<open>sanitizeOutput\<close>

definition isQuote :: "cu \<Rightarrow> bool" where
  "isQuote c \<longleftrightarrow> c = 0x22 \<or> c = 0x27"

definition ansiEscapePattern :: "item list" where
  "ansiEscapePattern =
     [one (\<lambda>c. c = 0x1B), one (\<lambda>c. c = 0x5B), star (\<lambda>c. isDigit c \<or> c = 0x3B), one isLetter]"

definition assignment :: "string \<Rightarrow> item list" where
  "assignment key =
     liti key @
     [star isWhiteSpace, one (oneOf '':=''), star isWhiteSpace,
      one isQuote, plus (\<lambda>c. \<not> isQuote c), one isQuote]"

definition outputSecretPatterns :: "(item list \<times> jsstring) list" where
  "outputSecretPatterns =
     [(openaiKey, js ''sk-***HIDDEN***''),
      (githubToken, js ''ghp_***HIDDEN***''),
      (assignment ''password'', js ''password: \"***HIDDEN***\"''),
      (assignment ''api_key'', js ''api_key: \"***HIDDEN***\"'')]"

definition sanitizeOutput :: "jsstring \<Rightarrow> jsstring" where
  "sanitizeOutput output =
     (let sanitized = replaceAll (match_items ansiEscapePattern) [] output
      in fold (\<lambda>(pattern, replacement) sanitized.
                 replaceAll (match_items pattern) replacement sanitized)
           outputSecretPatterns sanitized)"

section \<open>The world outside the process\<close>

text \<open>
  The remote sandbox provider, the system clock and the identifier generator are not part of
  the program. They are parameters: each remote operation answers from the history of remote
  calls made so far, the clock gives its k-th reading, \<open>uuidv4\<close> its k-th identifier. A remote
  session is an opaque number. A thrown value is an \<open>Error\<close> with a message or something else.
\<close>

datatype thrown = Error jsstring | NonError

record execError =
  ename :: jsstring
  evalue :: jsstring
  etraceback :: "jsstring option"

record logs =
  stdout :: "jsstring list"
  stderr :: "jsstring list"

record execution =
  exec_logs :: "logs option"
  exec_results :: "jsstring option list"
  exec_error :: "execError option"

record entry =
  fname :: jsstring
  ftype :: jsstring
  fsize :: nat

datatype call =
  Create
| Kill nat
| RunCode nat jsstring "language option"
| FilesWrite nat jsstring jsstring
| FilesRead nat jsstring
| FilesList nat jsstring

record env =
  clock :: "nat \<Rightarrow> int"
  uuidv4 :: "nat \<Rightarrow> jsstring"
  hit :: "nat \<Rightarrow> jsstring \<Rightarrow> bool"
  toISOString :: "int \<Rightarrow> jsstring"
  stringify :: "jsstring \<Rightarrow> jsstring"
  create :: "call list \<Rightarrow> thrown + nat"
  kill :: "call list \<Rightarrow> nat \<Rightarrow> thrown option"
  runCode :: "call list \<Rightarrow> nat \<Rightarrow> jsstring \<Rightarrow> language option \<Rightarrow> thrown + execution"
  files_write :: "call list \<Rightarrow> nat \<Rightarrow> jsstring \<Rightarrow> jsstring \<Rightarrow> thrown option"
  files_read :: "call list \<Rightarrow> nat \<Rightarrow> jsstring \<Rightarrow> thrown + jsstring"
  files_list :: "call list \<Rightarrow> nat \<Rightarrow> jsstring \<Rightarrow> thrown + entry list"

definition message :: "thrown \<Rightarrow> jsstring \<Rightarrow> jsstring" where
  "message err other = (case err of Error m \<Rightarrow> m | NonError \<Rightarrow> other)"

section \<open>SandboxService (sandbox-manager.ts)\<close>

record SandboxManager =
  ident :: jsstring
  sandbox :: nat
  createdAt :: int
  lastUsed :: int
  language :: language

text \<open>
  The registry is a JavaScript \<open>Map\<close>: it iterates in insertion order, \<open>set\<close> on a key that
  is present keeps its place, \<open>delete\<close> removes it. The handles are objects stored in the
  map, so an assignment to \<open>sandbox.lastUsed\<close> is an update of the entry.
\<close>

type_synonym registry = "(jsstring \<times> SandboxManager) list"

fun mapSet :: "registry \<Rightarrow> jsstring \<Rightarrow> SandboxManager \<Rightarrow> registry" where
  "mapSet [] k v = [(k, v)]"
| "mapSet ((k', v') # m) k v = (if k' = k then (k, v) # m else (k', v') # mapSet m k v)"

definition mapDelete :: "registry \<Rightarrow> jsstring \<Rightarrow> registry" where
  "mapDelete m k = filter (\<lambda>(k', v). k' \<noteq> k) m"

record world =
  sandboxes :: registry
  intervalActive :: bool
  calls :: "call list"
  ticks :: nat
  uuids :: nat
  events :: "jsstring list"

definition SANDBOX_IDLE_TIMEOUT :: int where "SANDBOX_IDLE_TIMEOUT = 300000"
definition MAX_OUTPUT_LENGTH :: nat where "MAX_OUTPUT_LENGTH = 10000"

text \<open>\<open>new Date()\<close> and \<open>Date.now()\<close>: the next reading of the clock.\<close>

definition now :: "env \<Rightarrow> world \<Rightarrow> int \<times> world" where
  "now e w = (clock e (ticks w), w\<lparr>ticks := Suc (ticks w)\<rparr>)"

definition remote :: "call \<Rightarrow> world \<Rightarrow> world" where
  "remote c w = w\<lparr>calls := calls w @ [c]\<rparr>"

definition createSandbox :: "env \<Rightarrow> language \<Rightarrow> world \<Rightarrow> (thrown + jsstring) \<times> world" where
  "createSandbox e lang w =
     (case create e (calls w) of
        Inl err \<Rightarrow>
          (Inl (Error (js ''Failed to create sandbox: '' @ message err (js ''Unknown error''))),
           remote Create w)
      | Inr sb \<Rightarrow>
          let w1 = remote Create w;
              newId = uuidv4 e (uuids w1);
              w2 = w1\<lparr>uuids := Suc (uuids w1)\<rparr>;
              (created, w3) = now e w2;
              (used, w4) = now e w3;
              sandboxManager = \<lparr>ident = newId, sandbox = sb, createdAt = created,
                                lastUsed = used, language = lang\<rparr>
          in (Inr newId, w4\<lparr>sandboxes := mapSet (sandboxes w4) newId sandboxManager\<rparr>))"

definition getSandbox :: "env \<Rightarrow> jsstring \<Rightarrow> world \<Rightarrow> SandboxManager option \<times> world" where
  "getSandbox e k w =
     (case map_of (sandboxes w) k of
        None \<Rightarrow> (None, w)
      | Some sb \<Rightarrow>
          let (t, w1) = now e w; sb' = sb\<lparr>lastUsed := t\<rparr>
          in (Some sb', w1\<lparr>sandboxes := mapSet (sandboxes w1) k sb'\<rparr>))"

text \<open>
  \<open>if (sandboxId)\<close> holds for a string that is present and not empty. The last line of the
  source reads the handle it has just registered; the model raises where the source would
  dereference \<open>undefined\<close>.
\<close>

definition getOrCreateSandbox ::
  "env \<Rightarrow> language \<Rightarrow> jsstring option \<Rightarrow> world \<Rightarrow> (thrown + SandboxManager) \<times> world" where
  "getOrCreateSandbox e lang sandboxId w =
     (let (existing, w1) =
            (case sandboxId of
               None \<Rightarrow> (None, w)
             | Some k \<Rightarrow> if k = [] then (None, w) else getSandbox e k w)
      in if existing \<noteq> None \<and> language (the existing) = lang then (Inr (the existing), w1)
         else
           (case find (\<lambda>(k, sb). language sb = lang) (sandboxes w1) of
              Some (k, sb) \<Rightarrow>
                let (t, w2) = now e w1; sb' = sb\<lparr>lastUsed := t\<rparr>
                in (Inr sb', w2\<lparr>sandboxes := mapSet (sandboxes w2) k sb'\<rparr>)
            | None \<Rightarrow>
                (case createSandbox e lang w1 of
                   (Inl err, w2) \<Rightarrow> (Inl err, w2)
                 | (Inr newId, w2) \<Rightarrow>
                     (case getSandbox e newId w2 of
                        (Some sb, w3) \<Rightarrow> (Inr sb, w3)
                      | (None, w3) \<Rightarrow>
                          (Inl (Error (js ''Cannot read properties of undefined'')), w3)))))"

text \<open>Both branches of the \<open>try\<close> delete the entry.\<close>

definition terminateSandbox :: "env \<Rightarrow> jsstring \<Rightarrow> world \<Rightarrow> world" where
  "terminateSandbox e k w =
     (case map_of (sandboxes w) k of
        None \<Rightarrow> w
      | Some sandboxManager \<Rightarrow>
          let w1 = remote (Kill (sandbox sandboxManager)) w in
          (case kill e (calls w) (sandbox sandboxManager) of
             None \<Rightarrow> w1\<lparr>sandboxes := mapDelete (sandboxes w1) k\<rparr>
           | Some err \<Rightarrow> w1\<lparr>sandboxes := mapDelete (sandboxes w1) k\<rparr>))"

definition cleanupIdleSandboxes :: "env \<Rightarrow> world \<Rightarrow> world" where
  "cleanupIdleSandboxes e w =
     (let (t, w1) = now e w;
          idleSandboxes =
            map fst (filter (\<lambda>(k, sb). t - lastUsed sb > SANDBOX_IDLE_TIMEOUT) (sandboxes w1))
      in fold (terminateSandbox e) idleSandboxes w1)"

text \<open>
  \<open>cleanup\<close> starts one \<open>terminateSandbox\<close> per key and waits for all of them with
  \<open>Promise.allSettled\<close>. Every one of them reads its entry and calls \<open>kill\<close> before the first
  suspension, in key order, and afterwards deletes only its own key, so running them one
  after the other in key order reaches the same registry and the same sequence of remote
  calls; \<open>terminations\<close> is the state when all have settled, before \<open>clear()\<close>.
\<close>

definition terminations :: "env \<Rightarrow> world \<Rightarrow> world" where
  "terminations e w =
     fold (terminateSandbox e) (map fst (sandboxes w)) (w\<lparr>intervalActive := False\<rparr>)"

definition cleanup :: "env \<Rightarrow> world \<Rightarrow> world" where
  "cleanup e w = (terminations e w)\<lparr>sandboxes := []\<rparr>"

definition listSandboxes :: "world \<Rightarrow> SandboxManager list" where
  "listSandboxes w = map snd (sandboxes w)"

section \<open>E2BTools (tools.ts)\<close>

record CallToolResult =
  content_text :: jsstring
  isError :: bool

text \<open>
  \<open>logSecurityEvent\<close> hands the event to the logger with the time of a clock reading; the
  event kinds are kept in the state.
\<close>

definition logSecurityEvent :: "env \<Rightarrow> jsstring \<Rightarrow> world \<Rightarrow> world" where
  "logSecurityEvent e event w = (let (t, w1) = now e w in w1\<lparr>events := events w1 @ [event]\<rparr>)"

definition reasonText :: "verdict \<Rightarrow> jsstring" where
  "reasonText v = (case reason v of Some r \<Rightarrow> r | None \<Rightarrow> js ''undefined'')"

text \<open>
  The three tools that run code collect the remote result into one text in the same way:
  standard output, standard error, the texts of the results, the error.
\<close>

definition collectOutput :: "execution \<Rightarrow> jsstring \<times> bool" where
  "collectOutput result =
     (let out1 = (case exec_logs result of
                    None \<Rightarrow> []
                  | Some l \<Rightarrow>
                      (if stdout l \<noteq> [] then join (js ''\<newline>'') (stdout l) @ js ''\<newline>'' else []) @
                      (if stderr l \<noteq> [] then join (js ''\<newline>'') (stderr l) @ js ''\<newline>'' else []));
          out2 = concat (map (\<lambda>res. case res of
                                       None \<Rightarrow> []
                                     | Some t \<Rightarrow> if t = [] then [] else t @ js ''\<newline>'')
                             (exec_results result))
      in case exec_error result of
           None \<Rightarrow> (out1 @ out2, False)
         | Some err \<Rightarrow>
             (out1 @ out2 @ js ''Error: '' @ ename err @ js '': '' @ evalue err @ js ''\<newline>'' @
              (case etraceback err of
                 None \<Rightarrow> []
               | Some tb \<Rightarrow> if tb = [] then [] else tb @ js ''\<newline>''),
              True))"

definition truncateOutput :: "jsstring \<Rightarrow> jsstring" where
  "truncateOutput output =
     (if length output > MAX_OUTPUT_LENGTH
      then take MAX_OUTPUT_LENGTH output @ js ''\<newline>... (output truncated)''
      else output)"

definition orNoOutput :: "jsstring \<Rightarrow> jsstring" where
  "orNoOutput output = (if output = [] then js ''(no output)'' else output)"

definition completedText :: "int \<Rightarrow> jsstring \<Rightarrow> jsstring \<Rightarrow> jsstring" where
  "completedText executionTime k output =
     js ''Execution completed in '' @ showInt executionTime @ js ''ms\<newline>Sandbox ID: '' @ k @
     js ''\<newline>\<newline>Output:\<newline>'' @ orNoOutput output"

definition failedText :: "int \<Rightarrow> jsstring \<Rightarrow> thrown \<Rightarrow> jsstring" where
  "failedText executionTime k err =
     js ''Execution failed after '' @ showInt executionTime @ js ''ms\<newline>Sandbox ID: '' @ k @
     js ''\<newline>\<newline>Error: '' @ message err (js ''Unknown error'')"

type_synonym 'a outcome = "(thrown + 'a) \<times> world"

definition executePython ::
  "env \<Rightarrow> jsstring option \<Rightarrow> jsstring option \<Rightarrow> world \<Rightarrow> CallToolResult outcome" where
  "executePython e code sandbox_id w =
     (if code = None \<or> code = Some [] then
        (Inl (Error (js ''Code parameter is required and must be a string'')), w)
      else
        let validation = fst (validateCode (hit e) (the code) Python) in
        if \<not> isValid validation then
          (Inl (Error (js ''Security validation failed: '' @ reasonText validation)),
           logSecurityEvent e (js ''code_validation_failed'') w)
        else
          (case getOrCreateSandbox e Python sandbox_id w of
             (Inl err, w1) \<Rightarrow> (Inl err, w1)
           | (Inr sb, w1) \<Rightarrow>
               let (startTime, w2) = now e w1;
                   answer = runCode e (calls w2) (sandbox sb) (the code) None;
                   w3 = remote (RunCode (sandbox sb) (the code) None) w2;
                   (endTime, w4) = now e w3;
                   executionTime = endTime - startTime
               in case answer of
                    Inl err \<Rightarrow>
                      (Inr \<lparr>content_text = failedText executionTime (ident sb) err,
                            isError = True\<rparr>, w4)
                  | Inr result \<Rightarrow>
                      let (output, hasError) = collectOutput result;
                          output = truncateOutput output;
                          output = sanitizeOutput output
                      in (Inr \<lparr>content_text = completedText executionTime (ident sb) output,
                               isError = hasError\<rparr>, w4)))"

definition executeJavaScript ::
  "env \<Rightarrow> jsstring option \<Rightarrow> jsstring option \<Rightarrow> world \<Rightarrow> CallToolResult outcome" where
  "executeJavaScript e code sandbox_id w =
     (if code = None \<or> code = Some [] then
        (Inl (Error (js ''Code parameter is required and must be a string'')), w)
      else
        let validation = fst (validateCode (hit e) (the code) JavaScript) in
        if \<not> isValid validation then
          (Inl (Error (js ''Security validation failed: '' @ reasonText validation)),
           logSecurityEvent e (js ''code_validation_failed'') w)
        else
          (case getOrCreateSandbox e JavaScript sandbox_id w of
             (Inl err, w1) \<Rightarrow> (Inl err, w1)
           | (Inr sb, w1) \<Rightarrow>
               let (startTime, w2) = now e w1;
                   answer = runCode e (calls w2) (sandbox sb) (the code) (Some JavaScript);
                   w3 = remote (RunCode (sandbox sb) (the code) (Some JavaScript)) w2;
                   (endTime, w4) = now e w3;
                   executionTime = endTime - startTime
               in case answer of
                    Inl err \<Rightarrow>
                      (Inr \<lparr>content_text = failedText executionTime (ident sb) err,
                            isError = True\<rparr>, w4)
                  | Inr result \<Rightarrow>
                      let (output, hasError) = collectOutput result;
                          output = truncateOutput output
                      in (Inr \<lparr>content_text = completedText executionTime (ident sb) output,
                               isError = hasError\<rparr>, w4)))"

definition createFile ::
  "env \<Rightarrow> jsstring option \<Rightarrow> jsstring option \<Rightarrow> jsstring option \<Rightarrow> world
   \<Rightarrow> CallToolResult outcome" where
  "createFile e path content sandbox_id w =
     (if path = None \<or> path = Some [] \<or> content = None then
        (Inl (Error (js ''Path and content parameters are required'')), w)
      else
        let pathValidation = validateFilePath (the path) in
        if \<not> isValid pathValidation then
          (Inl (Error (js ''Path validation failed: '' @ reasonText pathValidation)),
           logSecurityEvent e (js ''file_path_validation_failed'') w)
        else
          let contentValidation = validateFileContent (the content) in
          if \<not> isValid contentValidation then
            (Inl (Error (js ''Content validation failed: '' @ reasonText contentValidation)),
             logSecurityEvent e (js ''file_content_validation_failed'') w)
          else
            (case getOrCreateSandbox e Python sandbox_id w of
               (Inl err, w1) \<Rightarrow> (Inl err, w1)
             | (Inr sb, w1) \<Rightarrow>
                 let w2 = remote (FilesWrite (sandbox sb) (the path) (the content)) w1 in
                 (case files_write e (calls w1) (sandbox sb) (the path) (the content) of
                    Some err \<Rightarrow> (Inl err, w2)
                  | None \<Rightarrow>
                      (Inr \<lparr>content_text =
                              js ''File created successfully: '' @ the path @
                              js ''\<newline>Sandbox ID: '' @ ident sb @
                              js ''\<newline>Content length: '' @ showNat (length (the content)) @
                              js '' bytes'',
                            isError = False\<rparr>, w2))))"

definition readFile ::
  "env \<Rightarrow> jsstring option \<Rightarrow> jsstring option \<Rightarrow> world \<Rightarrow> CallToolResult outcome" where
  "readFile e path sandbox_id w =
     (if path = None \<or> path = Some [] then
        (Inl (Error (js ''Path parameter is required'')), w)
      else
        (case getOrCreateSandbox e Python sandbox_id w of
           (Inl err, w1) \<Rightarrow> (Inl err, w1)
         | (Inr sb, w1) \<Rightarrow>
             let w2 = remote (FilesRead (sandbox sb) (the path)) w1 in
             (case files_read e (calls w1) (sandbox sb) (the path) of
                Inl err \<Rightarrow> (Inl err, w2)
              | Inr content \<Rightarrow>
                  (Inr \<lparr>content_text =
                          js ''File: '' @ the path @ js ''\<newline>Sandbox ID: '' @ ident sb @
                          js ''\<newline>Content length: '' @ showNat (length content) @
                          js '' bytes\<newline>\<newline>'' @ content,
                        isError = False\<rparr>, w2))))"

text \<open>The two icons of the listing are U+1F4C1 and U+1F4C4, a surrogate pair each.\<close>

definition fileLine :: "entry \<Rightarrow> jsstring" where
  "fileLine f =
     (if ftype f = js ''dir'' then [0xD83D, 0xDCC1] else [0xD83D, 0xDCC4]) @ js '' '' @ fname f @
     (if fsize f \<noteq> 0 then js '' ('' @ showNat (fsize f) @ js '' bytes)'' else [])"

definition listFiles ::
  "env \<Rightarrow> jsstring option \<Rightarrow> jsstring option \<Rightarrow> world \<Rightarrow> CallToolResult outcome" where
  "listFiles e path_arg sandbox_id w =
     (let path = (case path_arg of None \<Rightarrow> js ''.'' | Some p \<Rightarrow> p) in
      case getOrCreateSandbox e Python sandbox_id w of
        (Inl err, w1) \<Rightarrow> (Inl err, w1)
      | (Inr sb, w1) \<Rightarrow>
          let w2 = remote (FilesList (sandbox sb) path) w1 in
          (case files_list e (calls w1) (sandbox sb) path of
             Inl err \<Rightarrow> (Inl err, w2)
           | Inr files \<Rightarrow>
               (Inr \<lparr>content_text =
                       js ''Directory: '' @ path @ js ''\<newline>Sandbox ID: '' @ ident sb @
                       js ''\<newline>Files ('' @ showNat (length files) @ js ''):\<newline>\<newline>'' @
                       join (js ''\<newline>'') (map fileLine files),
                     isError = False\<rparr>, w2)))"

definition languageName :: "language \<Rightarrow> jsstring" where
  "languageName lang = (case lang of Python \<Rightarrow> js ''python'' | JavaScript \<Rightarrow> js ''javascript'')"

definition quoted :: "jsstring list \<Rightarrow> jsstring" where
  "quoted packages = join (js '', '') (map (\<lambda>p. [0x27] @ p @ [0x27]) packages)"

definition installCommand :: "jsstring list \<Rightarrow> language \<Rightarrow> jsstring" where
  "installCommand packages lang =
     (case lang of
        Python \<Rightarrow>
          js ''\<newline>import subprocess\<newline>import sys\<newline>\<newline>packages = ['' @ quoted packages @
          js '']\<newline>for package in packages:\<newline>'' @
          js ''    subprocess.check_call([sys.executable, '-m', 'pip', 'install', package])\<newline>'' @
          js ''print(f\"Successfully installed: {', '.join(packages)}\")\<newline>''
      | JavaScript \<Rightarrow>
          js ''\<newline>const { execSync } = require('child_process');\<newline>const packages = ['' @
          quoted packages @ js ''];\<newline>try {\<newline>'' @
          js ''  const result = execSync('npm install ' + packages.join(' '), { \<newline>'' @
          js ''    encoding: 'utf8', \<newline>    cwd: process.cwd(),\<newline>    timeout: 30000 \<newline>  });\<newline>'' @
          js ''  console.log(result);\<newline>'' @
          js ''  console.log('Successfully installed:', packages.join(', '));\<newline>'' @
          js ''} catch (error) {\<newline>  console.error('Install failed:', error.message);\<newline>'' @
          js ''  throw error;\<newline>}'')"

definition installPackages ::
  "env \<Rightarrow> jsstring list option \<Rightarrow> language \<Rightarrow> jsstring option \<Rightarrow> world
   \<Rightarrow> CallToolResult outcome" where
  "installPackages e packages lang sandbox_id w =
     (if packages = None \<or> packages = Some [] then
        (Inl (Error (js ''Packages parameter is required and must be a non-empty array'')), w)
      else
        let packageValidation = validatePackages (the packages) lang in
        if \<not> isValid packageValidation then
          (Inl (Error (js ''Package validation failed: '' @ reasonText packageValidation)),
           logSecurityEvent e (js ''package_validation_failed'') w)
        else
          (case getOrCreateSandbox e lang sandbox_id w of
             (Inl err, w1) \<Rightarrow> (Inl err, w1)
           | (Inr sb, w1) \<Rightarrow>
               let command = installCommand (the packages) lang;
                   w2 = remote (RunCode (sandbox sb) command (Some lang)) w1
               in case runCode e (calls w1) (sandbox sb) command (Some lang) of
                    Inl err \<Rightarrow> (Inl err, w2)
                  | Inr result \<Rightarrow>
                      let (output, hasError) = collectOutput result in
                      (Inr \<lparr>content_text =
                              js ''Package installation '' @
                              (if hasError then js ''failed'' else js ''completed'') @
                              js ''\<newline>Sandbox ID: '' @ ident sb @
                              js ''\<newline>Packages: '' @ join (js '', '') (the packages) @
                              js ''\<newline>Language: '' @ languageName lang @
                              js ''\<newline>\<newline>Output:\<newline>'' @ orNoOutput output,
                            isError = hasError\<rparr>, w2)))"

text \<open>
  \<open>JSON.stringify(info, null, 2)\<close> of the six fields; the escaping of a string
  (\<open>stringify\<close>) and the calendar arithmetic of \<open>toISOString\<close> belong to the runtime.
\<close>

definition infoText :: "env \<Rightarrow> SandboxManager \<Rightarrow> nat \<Rightarrow> jsstring" where
  "infoText e sb filesCount =
     js ''Sandbox Information:\<newline>{\<newline>  \"id\": '' @ stringify e (ident sb) @
     js '',\<newline>  \"language\": '' @ stringify e (languageName (language sb)) @
     js '',\<newline>  \"createdAt\": '' @ stringify e (toISOString e (createdAt sb)) @
     js '',\<newline>  \"lastUsed\": '' @ stringify e (toISOString e (lastUsed sb)) @
     js '',\<newline>  \"status\": '' @ stringify e (js ''active'') @
     js '',\<newline>  \"filesCount\": '' @ showNat filesCount @ js ''\<newline>}''"

definition summaryText :: "env \<Rightarrow> SandboxManager \<Rightarrow> jsstring" where
  "summaryText e sb =
     js ''ID: '' @ ident sb @ js ''\<newline>Language: '' @ languageName (language sb) @
     js ''\<newline>Created: '' @ toISOString e (createdAt sb) @
     js ''\<newline>Last Used: '' @ toISOString e (lastUsed sb) @ js ''\<newline>''"

definition getSandboxInfo :: "env \<Rightarrow> jsstring option \<Rightarrow> world \<Rightarrow> CallToolResult outcome" where
  "getSandboxInfo e sandbox_id w =
     (if sandbox_id \<noteq> None \<and> sandbox_id \<noteq> Some [] then
        (case getSandbox e (the sandbox_id) w of
           (None, w1) \<Rightarrow>
             (Inl (Error (js ''Sandbox '' @ the sandbox_id @ js '' not found'')), w1)
         | (Some sb, w1) \<Rightarrow>
             let w2 = remote (FilesList (sandbox sb) (js ''.'')) w1 in
             (case files_list e (calls w1) (sandbox sb) (js ''.'') of
                Inl err \<Rightarrow> (Inl err, w2)
              | Inr files \<Rightarrow>
                  (Inr \<lparr>content_text = infoText e sb (length files), isError = False\<rparr>, w2)))
      else
        let sbs = listSandboxes w in
        (Inr \<lparr>content_text =
                js ''Active Sandboxes ('' @ showNat (length sbs) @ js ''):\<newline>\<newline>'' @
                join (js ''\<newline>'') (map (summaryText e) sbs),
              isError = False\<rparr>, w))"

datatype invocation =
  ExecutePython "jsstring option" "jsstring option"
| ExecuteJavaScript "jsstring option" "jsstring option"
| CreateFile "jsstring option" "jsstring option" "jsstring option"
| ReadFile "jsstring option" "jsstring option"
| ListFiles "jsstring option" "jsstring option"
| InstallPackages "jsstring list option" language "jsstring option"
| GetSandboxInfo "jsstring option"
| UnknownTool jsstring

definition dispatch :: "env \<Rightarrow> invocation \<Rightarrow> world \<Rightarrow> CallToolResult outcome" where
  "dispatch e request w =
     (case request of
        ExecutePython code sandbox_id \<Rightarrow> executePython e code sandbox_id w
      | ExecuteJavaScript code sandbox_id \<Rightarrow> executeJavaScript e code sandbox_id w
      | CreateFile path content sandbox_id \<Rightarrow> createFile e path content sandbox_id w
      | ReadFile path sandbox_id \<Rightarrow> readFile e path sandbox_id w
      | ListFiles path sandbox_id \<Rightarrow> listFiles e path sandbox_id w
      | InstallPackages packages lang sandbox_id \<Rightarrow> installPackages e packages lang sandbox_id w
      | GetSandboxInfo sandbox_id \<Rightarrow> getSandboxInfo e sandbox_id w
      | UnknownTool name \<Rightarrow> (Inl (Error (js ''Unknown tool: '' @ name)), w))"

text \<open>\<open>executeTool\<close> turns whatever a tool throws into a failure result.\<close>

definition executeTool :: "env \<Rightarrow> invocation \<Rightarrow> world \<Rightarrow> CallToolResult \<times> world" where
  "executeTool e request w =
     (case dispatch e request w of
        (Inl err, w1) \<Rightarrow>
          (\<lparr>content_text = js ''Error: '' @ message err (js ''Unknown error occurred''),
            isError = True\<rparr>, w1)
      | (Inr r, w1) \<Rightarrow> (r, w1))"

section \<open>Notions used to state the properties\<close>

text \<open>The segments of a path are the pieces between its slashes.\<close>

fun splitOn :: "cu \<Rightarrow> jsstring \<Rightarrow> jsstring list" where
  "splitOn sep [] = [[]]"
| "splitOn sep (c # s) =
     (if c = sep then [] # splitOn sep s
      else (case splitOn sep s of [] \<Rightarrow> [[c]] | seg # segs \<Rightarrow> (c # seg) # segs))"

definition hasParentSegment :: "jsstring \<Rightarrow> bool" where
  "hasParentSegment path \<longleftrightarrow> js ''..'' \<in> set (splitOn 0x2F path)"

text \<open>
  The five checks of \<open>validateFilePath\<close>, each on its own: a check gives the reason of its
  failure. \<open>firstFailure\<close> runs a list of checks in order and stops at the first failure.
\<close>

definition lengthCheck :: "jsstring \<Rightarrow> jsstring option" where
  "lengthCheck path =
     (if length path > 255
      then Some (js ''File path exceeds maximum length of 255 characters'') else None)"

definition emptinessCheck :: "jsstring \<Rightarrow> jsstring option" where
  "emptinessCheck path =
     (if trim path = [] then Some (js ''File path cannot be empty'') else None)"

definition traversalCheck :: "jsstring \<Rightarrow> jsstring option" where
  "traversalCheck path =
     (if includesStr path (js ''..'')
      then Some (js ''Directory traversal not allowed in file paths'') else None)"

definition forbiddenPrefixCheck :: "jsstring \<Rightarrow> jsstring option" where
  "forbiddenPrefixCheck path =
     map_option (\<lambda>d. js ''Access to system directory '' @ d @ js '' is not allowed'')
       (find (startsWith path) dangerousPaths)"

definition nullByteCheck :: "jsstring \<Rightarrow> jsstring option" where
  "nullByteCheck path =
     (if includesStr path [0] then Some (js ''Null bytes not allowed in file paths'') else None)"

fun firstFailure :: "(jsstring \<Rightarrow> jsstring option) list \<Rightarrow> jsstring \<Rightarrow> jsstring option" where
  "firstFailure [] path = None"
| "firstFailure (check # checks) path =
     (case check path of Some r \<Rightarrow> Some r | None \<Rightarrow> firstFailure checks path)"

section \<open>A sample environment\<close>

text \<open>
  Concrete inputs for the examples: a clock that advances by one at each reading, a remote
  service whose sessions are numbered by the length of the call history, whose \<open>kill\<close> fails
  for session 0 and whose \<open>runCode\<close> prints the code it is given on standard output.
\<close>

definition sampleEnv :: env where
  "sampleEnv =
     \<lparr>clock = (\<lambda>k. 1000 + int k),
      uuidv4 = (\<lambda>k. js ''sandbox-'' @ showNat k),
      hit = (\<lambda>i code. False),
      toISOString = showInt,
      stringify = (\<lambda>s. [0x22] @ s @ [0x22]),
      create = (\<lambda>history. Inr (length history)),
      kill = (\<lambda>history s. if s = 0 then Some (Error (js ''teardown failed'')) else None),
      runCode = (\<lambda>history s code lang.
                   Inr \<lparr>exec_logs = Some \<lparr>stdout = [code], stderr = []\<rparr>,
                        exec_results = [], exec_error = None\<rparr>),
      files_write = (\<lambda>history s path content. None),
      files_read = (\<lambda>history s path. Inr (js ''data'')),
      files_list = (\<lambda>history s path. Inr [])\<rparr>"

definition emptyWorld :: world where
  "emptyWorld =
     \<lparr>sandboxes = [], intervalActive = True, calls = [], ticks = 0, uuids = 0, events = []\<rparr>"

definition twoWorld :: world where
  "twoWorld =
     \<lparr>sandboxes =
        [(js ''sandbox-0'',
          \<lparr>ident = js ''sandbox-0'', sandbox = 0, createdAt = 1000, lastUsed = 1002,
           language = Python\<rparr>),
         (js ''sandbox-1'',
          \<lparr>ident = js ''sandbox-1'', sandbox = 1, createdAt = 1003, lastUsed = 1005,
           language = JavaScript\<rparr>)],
      intervalActive = True, calls = [Create, Create], ticks = 6, uuids = 2, events = []\<rparr>"

text \<open>
  Two programs for the sample remote: one prints an escape sequence followed by 10000
  letters \<open>x\<close>, one prints an escape sequence followed by \<open>hi\<close>.
\<close>

definition ansiReset :: jsstring where
  "ansiReset = [0x1B] @ js ''[0m''"

definition longOutputCode :: jsstring where
  "longOutputCode = ansiReset @ replicate 10000 0x78"

definition shortOutputCode :: jsstring where
  "shortOutputCode = ansiReset @ js ''hi''"

section \<open>Evaluation of the printed constants\<close>

lemma showNat_50000: "showNat 50000 = js ''50000''"
  by (simp add: showNat.simps js_def digit_def)

lemma showNat_255: "showNat 255 = js ''255''"
  by (simp add: showNat.simps js_def digit_def)

lemma showNat_10485760: "showNat 10485760 = js ''10485760''"
  by (simp add: showNat.simps js_def digit_def)

section \<open>validateCode\<close>

lemma fst_validatePythonCode: "fst (validatePythonCode code) = valid"
  by (simp add: validatePythonCode_def)

lemma fst_validateJavaScriptCode: "fst (validateJavaScriptCode code) = valid"
  by (simp add: validateJavaScriptCode_def)

lemma validateCode_within:
  assumes "length code \<le> 50000" "trim code \<noteq> []"
  shows "fst (validateCode h code lang) = valid"
  using assms
  by (cases lang)
     (simp_all add: validateCode_def MAX_CODE_LENGTH_def Let_def split_beta
        fst_validatePythonCode fst_validateJavaScriptCode)

lemma validateCode_warns:
  assumes "length code \<le> 50000" "trim code \<noteq> []" "i < 22" "h i code"
  shows "DangerousPattern i \<in> set (snd (validateCode h code lang))"
  using assms
  by (cases lang)
     (auto simp add: validateCode_def MAX_CODE_LENGTH_def Let_def split_beta)

lemma validateCode_too_long:
  assumes "length code > 50000"
  shows "validateCode h code lang =
         (invalid (js ''Code exceeds maximum length of 50000 characters''), [])"
  using assms by (simp add: validateCode_def MAX_CODE_LENGTH_def showNat_50000 js_def)

lemma validateCode_blank:
  assumes "length code \<le> 50000" "trim code = []"
  shows "validateCode h code lang = (invalid (js ''Code cannot be empty''), [])"
  using assms by (simp add: validateCode_def MAX_CODE_LENGTH_def)

text \<open>
  Claim C8. \<open>validateCode\<close> fails only on size and emptiness. A code string of at most
  50000 code units that is not blank passes for both languages, whatever the dangerous
  patterns report (every reported pattern is among the warnings, the verdict still passes);
  a longer string fails with the reason that cites the length limit, a blank one with the
  reason that it cannot be empty; a failing verdict always carries a non-empty reason.
\<close>

theorem validateCode_hard_constraints:
  "(length code \<le> 50000 \<and> trim code \<noteq> [] \<longrightarrow>
      fst (validateCode h code lang) = valid \<and>
      (\<forall>i < 22. h i code \<longrightarrow> DangerousPattern i \<in> set (snd (validateCode h code lang)))) \<and>
   (length code > 50000 \<longrightarrow>
      fst (validateCode h code lang) =
        invalid (js ''Code exceeds maximum length of 50000 characters'')) \<and>
   (length code \<le> 50000 \<and> trim code = [] \<longrightarrow>
      fst (validateCode h code lang) = invalid (js ''Code cannot be empty'')) \<and>
   (\<not> isValid (fst (validateCode h code lang)) \<longrightarrow>
      (\<exists>r. reason (fst (validateCode h code lang)) = Some r \<and> r \<noteq> []))"
proof -
  have long: "length code > 50000 \<Longrightarrow> fst (validateCode h code lang) =
        invalid (js ''Code exceeds maximum length of 50000 characters'')"
    by (simp add: validateCode_too_long)
  have blank: "length code \<le> 50000 \<Longrightarrow> trim code = [] \<Longrightarrow>
      fst (validateCode h code lang) = invalid (js ''Code cannot be empty'')"
    by (simp add: validateCode_blank)
  have "\<exists>r. reason (fst (validateCode h code lang)) = Some r \<and> r \<noteq> []"
    if "\<not> isValid (fst (validateCode h code lang))"
  proof (cases "length code > 50000")
    case True
    then show ?thesis by (simp add: long invalid_def js_def)
  next
    case False
    then have le: "length code \<le> 50000" by simp
    show ?thesis
    proof (cases "trim code = []")
      case True
      then show ?thesis using le by (simp add: blank invalid_def js_def)
    next
      case False
      then show ?thesis using that le by (simp add: validateCode_within valid_def)
    qed
  qed
  then have d: "\<not> isValid (fst (validateCode h code lang)) \<longrightarrow>
      (\<exists>r. reason (fst (validateCode h code lang)) = Some r \<and> r \<noteq> [])"
    by (rule impI)
  have a: "length code \<le> 50000 \<and> trim code \<noteq> [] \<longrightarrow>
      fst (validateCode h code lang) = valid \<and>
      (\<forall>i < 22. h i code \<longrightarrow> DangerousPattern i \<in> set (snd (validateCode h code lang)))"
    by (simp add: validateCode_within validateCode_warns)
  show ?thesis
    using a d long blank by simp
qed

theorem validateCode_hard_constraints_witness:
  "length (js ''eval(input())'') \<le> 50000 \<and> trim (js ''eval(input())'') \<noteq> [] \<and>
   fst (validateCode (\<lambda>i s. True) (js ''eval(input())'') Python) = valid \<and>
   DangerousPattern 17 \<in> set (snd (validateCode (\<lambda>i s. True) (js ''eval(input())'') Python)) \<and>
   length (replicate 50001 (0x61 :: cu)) > 50000 \<and>
   \<not> isValid (fst (validateCode (\<lambda>i s. False) (replicate 50001 0x61) JavaScript)) \<and>
   trim (js ''  '') = [] \<and>
   \<not> isValid (fst (validateCode (\<lambda>i s. False) (js ''  '') JavaScript))"
proof -
  have a: "length (js ''eval(input())'') \<le> 50000 \<and> trim (js ''eval(input())'') \<noteq> []"
    by (simp add: js_def trim_def isWhiteSpace_def)
  have b: "length (js ''  '') \<le> 50000 \<and> trim (js ''  '') = []"
    by (simp add: js_def trim_def isWhiteSpace_def)
  have p: "fst (validateCode (\<lambda>i s. True) (js ''eval(input())'') Python) = valid \<and>
      DangerousPattern 17 \<in> set (snd (validateCode (\<lambda>i s. True) (js ''eval(input())'') Python))"
    using a validateCode_hard_constraints [of "js ''eval(input())''" "\<lambda>i s. True" Python]
    by simp
  have q: "\<not> isValid (fst (validateCode (\<lambda>i s. False) (replicate 50001 0x61) JavaScript))"
    using validateCode_hard_constraints [of "replicate 50001 0x61" "\<lambda>i s. False" JavaScript]
    by (simp add: invalid_def)
  have r: "\<not> isValid (fst (validateCode (\<lambda>i s. False) (js ''  '') JavaScript))"
    using b validateCode_hard_constraints [of "js ''  ''" "\<lambda>i s. False" JavaScript]
    by (simp add: invalid_def)
  show ?thesis
    using a b p q r by simp
qed

section \<open>validateFilePath\<close>

lemma startsWith_iff: "startsWith s p \<longleftrightarrow> (\<exists>post. s = p @ post)"
proof
  assume "startsWith s p"
  then have "s = p @ drop (length p) s"
    by (metis append_take_drop_id startsWith_def)
  then show "\<exists>post. s = p @ post" ..
next
  assume "\<exists>post. s = p @ post"
  then show "startsWith s p" by (auto simp: startsWith_def)
qed

lemma includesStr_iff: "includesStr s p \<longleftrightarrow> (\<exists>pre post. s = pre @ p @ post)"
proof (induction s)
  case Nil
  then show ?case by simp
next
  case (Cons c s)
  show ?case
  proof
    assume "includesStr (c # s) p"
    then consider "startsWith (c # s) p" | "includesStr s p" by auto
    then show "\<exists>pre post. c # s = pre @ p @ post"
    proof cases
      case 1
      then obtain post where "c # s = p @ post" by (auto simp: startsWith_iff)
      then have "c # s = [] @ p @ post" by simp
      then show ?thesis by blast
    next
      case 2
      then obtain pre post where "s = pre @ p @ post" using Cons.IH by auto
      then have "c # s = (c # pre) @ p @ post" by simp
      then show ?thesis by blast
    qed
  next
    assume "\<exists>pre post. c # s = pre @ p @ post"
    then obtain pre post where eq: "c # s = pre @ p @ post" by auto
    show "includesStr (c # s) p"
    proof (cases pre)
      case Nil
      then have "startsWith (c # s) p" using eq by (auto simp: startsWith_iff)
      then show ?thesis by simp
    next
      case (Cons a pre')
      then have "s = pre' @ p @ post" using eq by simp
      then have "includesStr s p" using Cons.IH by blast
      then show ?thesis by simp
    qed
  qed
qed

lemma splitOn_hd:
  "splitOn sep s = seg # segs \<Longrightarrow> \<exists>post. s = seg @ post"
proof (induction s arbitrary: seg segs)
  case Nil
  then show ?case by simp
next
  case (Cons c s)
  show ?case
  proof (cases "c = sep")
    case True
    then show ?thesis using Cons.prems by auto
  next
    case False
    show ?thesis
    proof (cases "splitOn sep s")
      case Nil
      then show ?thesis using Cons.prems False by auto
    next
      case (Cons seg0 segs0)
      then obtain post where "s = seg0 @ post" using Cons.IH by blast
      moreover have "seg = c # seg0" using Cons Cons.prems False by simp
      ultimately show ?thesis by simp
    qed
  qed
qed

lemma splitOn_segment:
  "seg \<in> set (splitOn sep s) \<Longrightarrow> \<exists>pre post. s = pre @ seg @ post"
proof (induction s arbitrary: seg)
  case Nil
  then show ?case by simp
next
  case (Cons c s)
  show ?case
  proof (cases "c = sep")
    case True
    then have "seg = [] \<or> seg \<in> set (splitOn sep s)" using Cons.prems by auto
    then show ?thesis
    proof
      assume "seg = []"
      then have "c # s = [] @ seg @ (c # s)" by simp
      then show ?thesis by blast
    next
      assume "seg \<in> set (splitOn sep s)"
      then obtain pre post where "s = pre @ seg @ post" using Cons.IH by blast
      then have "c # s = (c # pre) @ seg @ post" by simp
      then show ?thesis by blast
    qed
  next
    case False
    show ?thesis
    proof (cases "splitOn sep s")
      case Nil
      then have "seg = [c]" using Cons.prems False by simp
      then have "c # s = [] @ seg @ s" by simp
      then show ?thesis by blast
    next
      case (Cons seg0 segs)
      then have "seg = c # seg0 \<or> seg \<in> set segs" using Cons.prems False by auto
      then show ?thesis
      proof
        assume s0: "seg = c # seg0"
        obtain post where "s = seg0 @ post" using splitOn_hd [OF Cons] by blast
        then have "c # s = [] @ seg @ post" using s0 by simp
        then show ?thesis by blast
      next
        assume "seg \<in> set segs"
        then have "seg \<in> set (splitOn sep s)" using Cons by simp
        then obtain pre post where "s = pre @ seg @ post" using Cons.IH by blast
        then have "c # s = (c # pre) @ seg @ post" by simp
        then show ?thesis by blast
      qed
    qed
  qed
qed


lemma hasParentSegment_includes: "hasParentSegment path \<Longrightarrow> includesStr path (js ''..'')"
  unfolding hasParentSegment_def includesStr_iff by (rule splitOn_segment)

lemma validateFilePath_firstFailure:
  "validateFilePath path =
     (case firstFailure [lengthCheck, emptinessCheck, traversalCheck, forbiddenPrefixCheck,
                         nullByteCheck] path of
        Some r \<Rightarrow> invalid r | None \<Rightarrow> valid)"
  by (simp add: validateFilePath_def lengthCheck_def emptinessCheck_def traversalCheck_def
      forbiddenPrefixCheck_def nullByteCheck_def MAX_FILENAME_LENGTH_def showNat_255 js_def
      split: option.splits)

text \<open>
  Claim C7. A path of at most 255 code units that is not blank and has a \<open>..\<close> segment
  fails with the traversal reason; and for every path the verdict is that of the first
  failing check in the order length, emptiness, traversal, forbidden prefix, null byte.
\<close>

theorem validateFilePath_traversal_and_order:
  "(length path \<le> 255 \<and> trim path \<noteq> [] \<and> hasParentSegment path \<longrightarrow>
      validateFilePath path = invalid (js ''Directory traversal not allowed in file paths'')) \<and>
   validateFilePath path =
     (case firstFailure [lengthCheck, emptinessCheck, traversalCheck, forbiddenPrefixCheck,
                         nullByteCheck] path of
        Some r \<Rightarrow> invalid r | None \<Rightarrow> valid)"
proof -
  have "validateFilePath path = invalid (js ''Directory traversal not allowed in file paths'')"
    if "length path \<le> 255" "trim path \<noteq> []" "hasParentSegment path"
    using that hasParentSegment_includes [OF that(3)]
    by (simp add: validateFilePath_def MAX_FILENAME_LENGTH_def)
  then show ?thesis using validateFilePath_firstFailure by simp
qed

theorem validateFilePath_traversal_and_order_witness:
  "length (js ''data/../secret.txt'') \<le> 255 \<and> trim (js ''data/../secret.txt'') \<noteq> [] \<and>
   hasParentSegment (js ''data/../secret.txt'') \<and>
   validateFilePath (js ''data/../secret.txt'') =
     invalid (js ''Directory traversal not allowed in file paths'')"
proof -
  have a: "length (js ''data/../secret.txt'') \<le> 255 \<and> trim (js ''data/../secret.txt'') \<noteq> []"
    by (simp add: js_def trim_def isWhiteSpace_def)
  have b: "hasParentSegment (js ''data/../secret.txt'')"
    by (simp add: hasParentSegment_def js_def)
  show ?thesis
    using a b validateFilePath_traversal_and_order [of "js ''data/../secret.txt''"] by simp
qed

section \<open>validateFileContent\<close>

lemma unitBytes_two: "0x80 \<le> c \<Longrightarrow> c < 0x800 \<Longrightarrow> unitBytes c = 2"
  by (simp add: unitBytes_def word_le_nat_alt word_less_nat_alt)

lemma not_high_below_0x800: "c < 0x800 \<Longrightarrow> \<not> isHighSurrogate c"
  by (simp add: isHighSurrogate_def word_le_nat_alt word_less_nat_alt)

lemma byteLength_replicate_two:
  assumes "0x80 \<le> c" "c < 0x800"
  shows "byteLength (replicate n c) = 2 * n"
proof (induction n)
  case 0
  then show ?case by simp
next
  case (Suc n)
  show ?case
  proof (cases n)
    case 0
    then show ?thesis using assms by (simp add: unitBytes_two)
  next
    case (Suc m)
    then have "byteLength (replicate (Suc n) c) = unitBytes c + byteLength (replicate n c)"
      using assms by (simp add: not_high_below_0x800)
    then show ?thesis using Suc.IH assms by (simp add: unitBytes_two)
  qed
qed

lemma validateFileContent_too_large:
  assumes "byteLength content > 10485760"
  shows "validateFileContent content =
         invalid (js ''File content exceeds maximum size of 10485760 bytes'')"
  using assms
  by (simp add: validateFileContent_def MAX_FILE_SIZE_def showNat_10485760 Let_def js_def)

text \<open>
  Claim C9. Every content whose UTF-8 encoding is longer than 10485760 bytes fails, with
  the reason that cites the size limit; the measure is the byte length, not the number of
  code units: a content of \<open>n\<close> two-byte characters with \<open>n\<close> within the limit and
  \<open>2 * n\<close> above it fails.
\<close>

theorem validateFileContent_measures_bytes:
  "(byteLength content > 10485760 \<longrightarrow>
      validateFileContent content =
        invalid (js ''File content exceeds maximum size of 10485760 bytes'')) \<and>
   (0x80 \<le> c \<and> c < 0x800 \<and> n \<le> 10485760 \<and> 10485760 < 2 * n \<longrightarrow>
      length (replicate n c) \<le> 10485760 \<and>
      \<not> isValid (validateFileContent (replicate n c)))"
proof -
  have "\<not> isValid (validateFileContent (replicate n c))"
    if "0x80 \<le> c" "c < 0x800" "10485760 < 2 * n"
  proof -
    have "byteLength (replicate n c) > 10485760"
      using that by (simp add: byteLength_replicate_two)
    then show ?thesis by (simp add: validateFileContent_too_large invalid_def)
  qed
  then show ?thesis by (simp add: validateFileContent_too_large)
qed

theorem validateFileContent_measures_bytes_witness:
  "byteLength (replicate 5242881 (0xE9 :: cu)) > 10485760 \<and>
   length (replicate 5242881 (0xE9 :: cu)) \<le> 10485760 \<and>
   \<not> isValid (validateFileContent (replicate 5242881 0xE9))"
proof -
  have a: "byteLength (replicate 5242881 (0xE9 :: cu)) > 10485760"
    by (simp add: byteLength_replicate_two)
  show ?thesis
    using a validateFileContent_measures_bytes
                [of "replicate 5242881 0xE9" "0xE9" 5242881]
    by (simp add: invalid_def)
qed

section \<open>SandboxService: termination and shutdown\<close>

lemma map_of_mapSet: "map_of (mapSet m k v) = (map_of m)(k \<mapsto> v)"
  by (induction m) (auto simp: fun_eq_iff)

lemma keys_mapSet_present:
  "k \<in> fst ` set m \<Longrightarrow> map fst (mapSet m k v) = map fst m"
  by (induction m) force+

lemma mapSet_absent: "k \<notin> fst ` set m \<Longrightarrow> mapSet m k v = m @ [(k, v)]"
  by (induction m) auto

lemma map_of_mapDelete: "map_of (mapDelete m k) = (map_of m)(k := None)"
  by (induction m) (auto simp: mapDelete_def fun_eq_iff)

lemma mapDelete_absent: "map_of m k = None \<Longrightarrow> mapDelete m k = m"
  by (induction m) (auto simp: mapDelete_def split: if_splits)

lemma keys_mapDelete: "map fst (mapDelete m k) = filter (\<lambda>k'. k' \<noteq> k) (map fst m)"
  by (induction m) (auto simp: mapDelete_def)

lemma sandboxes_terminateSandbox:
  "sandboxes (terminateSandbox e k w) = mapDelete (sandboxes w) k"
  by (simp add: terminateSandbox_def remote_def mapDelete_absent Let_def
      split: option.splits)

lemma calls_terminateSandbox:
  "calls (terminateSandbox e k w) =
     (case map_of (sandboxes w) k of None \<Rightarrow> calls w | Some sb \<Rightarrow> calls w @ [Kill (sandbox sb)])"
  by (simp add: terminateSandbox_def remote_def Let_def split: option.splits)

lemma sandboxes_fold_terminate:
  "map fst (sandboxes (fold (terminateSandbox e) ks w)) =
     filter (\<lambda>k. k \<notin> set ks) (map fst (sandboxes w))"
proof (induction ks arbitrary: w)
  case Nil
  then show ?case by simp
next
  case (Cons k ks)
  have "map fst (sandboxes (fold (terminateSandbox e) (k # ks) w)) =
        filter (\<lambda>k'. k' \<notin> set ks) (map fst (sandboxes (terminateSandbox e k w)))"
    using Cons.IH by simp
  also have "\<dots> = filter (\<lambda>k'. k' \<notin> set ks) (filter (\<lambda>k'. k' \<noteq> k) (map fst (sandboxes w)))"
    by (simp add: sandboxes_terminateSandbox keys_mapDelete)
  also have "\<dots> = filter (\<lambda>k'. k' \<notin> set (k # ks)) (map fst (sandboxes w))"
    by (simp add: conj_commute)
  finally show ?case .
qed

lemma terminations_empty: "sandboxes (terminations e w) = []"
proof -
  have "map fst (sandboxes (terminations e w)) =
        filter (\<lambda>k. k \<notin> set (map fst (sandboxes w))) (map fst (sandboxes w))"
    unfolding terminations_def using sandboxes_fold_terminate [of e "map fst (sandboxes w)"]
    by simp
  also have "\<dots> = []" by (simp add: filter_empty_conv)
  finally show ?thesis by simp
qed

lemma calls_fold_terminate:
  assumes "distinct ks" "set ks \<subseteq> fst ` set (sandboxes w)"
  shows "calls (fold (terminateSandbox e) ks w) =
         calls w @ map (\<lambda>k. Kill (sandbox (the (map_of (sandboxes w) k)))) ks"
  using assms
proof (induction ks arbitrary: w)
  case Nil
  then show ?case by simp
next
  case (Cons k ks)
  let ?w1 = "terminateSandbox e k w"
  obtain sb where sb: "map_of (sandboxes w) k = Some sb"
    using Cons.prems(2) by (cases "map_of (sandboxes w) k") (auto simp: map_of_eq_None_iff)
  have k: "k \<notin> set ks" and d: "distinct ks" using Cons.prems(1) by auto
  have sub: "set ks \<subseteq> fst ` set (sandboxes ?w1)"
  proof
    fix k' assume k': "k' \<in> set ks"
    then have "k' \<noteq> k" using k by auto
    moreover have "k' \<in> set (map fst (sandboxes w))" using k' Cons.prems(2) by auto
    ultimately have "k' \<in> set (map fst (sandboxes ?w1))"
      by (simp add: sandboxes_terminateSandbox keys_mapDelete)
    then show "k' \<in> fst ` set (sandboxes ?w1)" by simp
  qed
  have same: "map_of (sandboxes ?w1) k' = map_of (sandboxes w) k'" if "k' \<in> set ks" for k'
    using that k by (auto simp: sandboxes_terminateSandbox map_of_mapDelete)
  have "calls (fold (terminateSandbox e) (k # ks) w) =
        calls ?w1 @ map (\<lambda>k. Kill (sandbox (the (map_of (sandboxes ?w1) k)))) ks"
    using Cons.IH [OF d sub] by simp
  also have "map (\<lambda>k. Kill (sandbox (the (map_of (sandboxes ?w1) k)))) ks =
             map (\<lambda>k. Kill (sandbox (the (map_of (sandboxes w) k)))) ks"
    using same by simp
  also have "calls ?w1 = calls w @ [Kill (sandbox sb)]"
    by (simp add: calls_terminateSandbox sb)
  finally show ?case by (simp add: sb)
qed

lemma calls_terminations:
  assumes "distinct (map fst (sandboxes w))"
  shows "calls (terminations e w) = calls w @ map (\<lambda>(k, sb). Kill (sandbox sb)) (sandboxes w)"
proof -
  let ?w = "w\<lparr>intervalActive := False\<rparr>"
  have "calls (terminations e w) =
        calls ?w @ map (\<lambda>k. Kill (sandbox (the (map_of (sandboxes ?w) k)))) (map fst (sandboxes w))"
    unfolding terminations_def using assms
    by (intro calls_fold_terminate) auto
  moreover have "map (\<lambda>k. Kill (sandbox (the (map_of (sandboxes w) k)))) (map fst (sandboxes w)) =
        map (\<lambda>(k, sb). Kill (sandbox sb)) (sandboxes w)"
  proof -
    have "the (map_of (sandboxes w) (fst x)) = snd x" if "x \<in> set (sandboxes w)" for x
      using map_of_is_SomeI [OF assms, of "fst x" "snd x"] that by simp
    then show ?thesis by (simp add: split_beta)
  qed
  ultimately show ?thesis by simp
qed

text \<open>
  Claim C6. After \<open>cleanup\<close> the registry is empty, whatever the remote \<open>kill\<close> calls
  answer: the registry is already empty when all terminations have settled, before
  \<open>clear()\<close>, and \<open>kill\<close> has been called once for every handle, in registry order, so no
  failure stops the others.
\<close>

theorem cleanup_drains:
  "sandboxes (cleanup e w) = [] \<and>
   sandboxes (terminations e w) = [] \<and>
   (distinct (map fst (sandboxes w)) \<longrightarrow>
      calls (cleanup e w) = calls w @ map (\<lambda>(k, sb). Kill (sandbox sb)) (sandboxes w))"
  by (simp add: cleanup_def terminations_empty calls_terminations)

theorem cleanup_drains_witness:
  "distinct (map fst (sandboxes twoWorld)) \<and>
   kill sampleEnv (calls twoWorld) 0 \<noteq> None \<and>
   sandboxes (cleanup sampleEnv twoWorld) = [] \<and>
   calls (cleanup sampleEnv twoWorld) = [Create, Create, Kill 0, Kill 1]"
proof -
  have d: "distinct (map fst (sandboxes twoWorld))"
    by (simp add: twoWorld_def js_def)
  have k: "kill sampleEnv (calls twoWorld) 0 \<noteq> None"
    by (simp add: sampleEnv_def)
  have c: "calls twoWorld @ map (\<lambda>(k, sb). Kill (sandbox sb)) (sandboxes twoWorld) =
           [Create, Create, Kill 0, Kill 1]"
    by (simp add: twoWorld_def)
  show ?thesis
    using d k c cleanup_drains [of sampleEnv twoWorld] by simp
qed

section \<open>SandboxService: lookup and acquisition\<close>

lemma getSandbox_found:
  assumes "map_of (sandboxes w) k = Some h"
  shows "getSandbox e k w =
         (Some (h\<lparr>lastUsed := clock e (ticks w)\<rparr>),
          w\<lparr>ticks := Suc (ticks w),
            sandboxes := mapSet (sandboxes w) k (h\<lparr>lastUsed := clock e (ticks w)\<rparr>)\<rparr>)"
  using assms by (simp add: getSandbox_def now_def Let_def)

lemma getSandbox_missing:
  assumes "map_of (sandboxes w) k = None"
  shows "getSandbox e k w = (None, w)"
  using assms by (simp add: getSandbox_def)

lemma getOrCreateSandbox_missing_id:
  assumes "map_of (sandboxes w) k = None"
  shows "getOrCreateSandbox e lang (Some k) w = getOrCreateSandbox e lang None w"
  using assms by (simp add: getOrCreateSandbox_def getSandbox_missing Let_def)

lemma getOrCreateSandbox_mismatch:
  assumes "map_of (sandboxes w) k = Some h" "k \<noteq> []" "language h \<noteq> lang"
  shows "getOrCreateSandbox e lang (Some k) w =
         getOrCreateSandbox e lang None (snd (getSandbox e k w))"
  using assms by (simp add: getOrCreateSandbox_def getSandbox_found Let_def)

lemma createSandbox_ok:
  assumes "create e (calls w) = Inr s"
  shows "createSandbox e lang w =
         (Inr (uuidv4 e (uuids w)),
          w\<lparr>calls := calls w @ [Create], uuids := Suc (uuids w), ticks := Suc (Suc (ticks w)),
            sandboxes := mapSet (sandboxes w) (uuidv4 e (uuids w))
               \<lparr>ident = uuidv4 e (uuids w), sandbox = s, createdAt = clock e (ticks w),
                lastUsed = clock e (Suc (ticks w)), language = lang\<rparr>\<rparr>)"
  using assms by (simp add: createSandbox_def remote_def now_def Let_def)

lemma createSandbox_failed:
  assumes "create e (calls w) = Inl err"
  shows "createSandbox e lang w =
         (Inl (Error (js ''Failed to create sandbox: '' @ message err (js ''Unknown error''))),
          w\<lparr>calls := calls w @ [Create]\<rparr>)"
  using assms by (simp add: createSandbox_def remote_def)

text \<open>What an acquisition without identifier does.\<close>

lemma getOrCreateSandbox_reuse:
  assumes "find (\<lambda>(k, sb). language sb = lang) (sandboxes w) = Some (k, sb)"
  shows "getOrCreateSandbox e lang None w =
         (Inr (sb\<lparr>lastUsed := clock e (ticks w)\<rparr>),
          w\<lparr>ticks := Suc (ticks w),
            sandboxes := mapSet (sandboxes w) k (sb\<lparr>lastUsed := clock e (ticks w)\<rparr>)\<rparr>)"
  using assms by (simp add: getOrCreateSandbox_def now_def Let_def)

lemma getOrCreateSandbox_create:
  assumes "find (\<lambda>(k, sb). language sb = lang) (sandboxes w) = None"
    and "create e (calls w) = Inr s"
  shows "getOrCreateSandbox e lang None w =
         (Inr \<lparr>ident = uuidv4 e (uuids w), sandbox = s, createdAt = clock e (ticks w),
               lastUsed = clock e (Suc (Suc (ticks w))), language = lang\<rparr>,
          w\<lparr>calls := calls w @ [Create], uuids := Suc (uuids w),
            ticks := Suc (Suc (Suc (ticks w))),
            sandboxes := mapSet (sandboxes w) (uuidv4 e (uuids w))
               \<lparr>ident = uuidv4 e (uuids w), sandbox = s, createdAt = clock e (ticks w),
                lastUsed = clock e (Suc (Suc (ticks w))), language = lang\<rparr>\<rparr>)"
proof -
  let ?k = "uuidv4 e (uuids w)"
  let ?h = "\<lparr>ident = ?k, sandbox = s, createdAt = clock e (ticks w),
             lastUsed = clock e (Suc (ticks w)), language = lang\<rparr>"
  let ?w2 = "w\<lparr>calls := calls w @ [Create], uuids := Suc (uuids w), ticks := Suc (Suc (ticks w)),
            sandboxes := mapSet (sandboxes w) ?k ?h\<rparr>"
  have c: "createSandbox e lang w = (Inr ?k, ?w2)"
    by (rule createSandbox_ok [OF assms(2)])
  have m: "map_of (sandboxes ?w2) ?k = Some ?h" by (simp add: map_of_mapSet)
  have g: "getSandbox e ?k ?w2 =
      (Some (?h\<lparr>lastUsed := clock e (ticks ?w2)\<rparr>),
       ?w2\<lparr>ticks := Suc (ticks ?w2),
            sandboxes := mapSet (sandboxes ?w2) ?k (?h\<lparr>lastUsed := clock e (ticks ?w2)\<rparr>)\<rparr>)"
    by (rule getSandbox_found [OF m])
  have s: "mapSet (mapSet m k v) k v' = mapSet m k v'" for m k v v'
    by (induction m) auto
  show ?thesis
    using assms(1) by (simp add: getOrCreateSandbox_def c g s Let_def)
qed

lemma getOrCreateSandbox_create_failed:
  assumes "find (\<lambda>(k, sb). language sb = lang) (sandboxes w) = None"
    and "create e (calls w) = Inl err"
  shows "getOrCreateSandbox e lang None w =
         (Inl (Error (js ''Failed to create sandbox: '' @ message err (js ''Unknown error''))),
          w\<lparr>calls := calls w @ [Create]\<rparr>)"
  using assms by (simp add: getOrCreateSandbox_def createSandbox_failed Let_def)

text \<open>
  Claim C5. From an empty registry, an acquisition without identifier registers exactly one
  handle (when the provider creates the session); a second acquisition right after it
  returns the handle with the same identifier, changes only its \<open>lastUsed\<close>, which becomes
  the reading of the clock at the second call (not earlier than before when the clock does
  not run backwards), registers no further handle and makes no remote call.
\<close>

theorem getOrCreateSandbox_creates_once_then_reuses:
  assumes "sandboxes w = []" and "create e (calls w) = Inr s"
  shows "\<exists>h1 w1 h2 w2.
           getOrCreateSandbox e lang None w = (Inr h1, w1) \<and>
           sandboxes w1 = [(ident h1, h1)] \<and>
           language h1 = lang \<and>
           getOrCreateSandbox e lang None w1 = (Inr h2, w2) \<and>
           ident h2 = ident h1 \<and>
           h2 = h1\<lparr>lastUsed := clock e (ticks w1)\<rparr> \<and>
           sandboxes w2 = [(ident h1, h2)] \<and>
           calls w2 = calls w1 \<and>
           (mono (clock e) \<longrightarrow> lastUsed h1 \<le> lastUsed h2)"
proof -
  let ?k = "uuidv4 e (uuids w)"
  let ?h1 = "\<lparr>ident = ?k, sandbox = s, createdAt = clock e (ticks w),
              lastUsed = clock e (Suc (Suc (ticks w))), language = lang\<rparr>"
  let ?w1 = "w\<lparr>calls := calls w @ [Create], uuids := Suc (uuids w),
              ticks := Suc (Suc (Suc (ticks w))),
              sandboxes := mapSet (sandboxes w) ?k ?h1\<rparr>"
  let ?h2 = "?h1\<lparr>lastUsed := clock e (ticks ?w1)\<rparr>"
  let ?w2 = "?w1\<lparr>ticks := Suc (ticks ?w1), sandboxes := mapSet (sandboxes ?w1) ?k ?h2\<rparr>"
  have none: "find (\<lambda>(k, sb). language sb = lang) (sandboxes w) = None"
    using assms(1) by simp
  have first: "getOrCreateSandbox e lang None w = (Inr ?h1, ?w1)"
    by (rule getOrCreateSandbox_create [OF none assms(2)])
  have reg1: "sandboxes ?w1 = [(?k, ?h1)]" using assms(1) by simp
  have found: "find (\<lambda>(k, sb). language sb = lang) (sandboxes ?w1) = Some (?k, ?h1)"
    by (simp add: reg1)
  have second: "getOrCreateSandbox e lang None ?w1 = (Inr ?h2, ?w2)"
    by (rule getOrCreateSandbox_reuse [OF found])
  have reg2: "sandboxes ?w2 = [(?k, ?h2)]" using assms(1) by simp
  have adv: "mono (clock e) \<longrightarrow> lastUsed ?h1 \<le> lastUsed ?h2"
    by (simp add: mono_def)
  have "getOrCreateSandbox e lang None w = (Inr ?h1, ?w1) \<and>
        sandboxes ?w1 = [(ident ?h1, ?h1)] \<and> language ?h1 = lang \<and>
        getOrCreateSandbox e lang None ?w1 = (Inr ?h2, ?w2) \<and>
        ident ?h2 = ident ?h1 \<and> ?h2 = ?h1\<lparr>lastUsed := clock e (ticks ?w1)\<rparr> \<and>
        sandboxes ?w2 = [(ident ?h1, ?h2)] \<and> calls ?w2 = calls ?w1 \<and>
        (mono (clock e) \<longrightarrow> lastUsed ?h1 \<le> lastUsed ?h2)"
    using first reg1 second reg2 adv by simp
  then show ?thesis by blast
qed

lemma mono_sample_clock: "mono (clock sampleEnv)"
  by (simp add: sampleEnv_def mono_def)

theorem getOrCreateSandbox_creates_once_then_reuses_witness:
  "sandboxes emptyWorld = [] \<and> create sampleEnv (calls emptyWorld) = Inr 0 \<and>
   mono (clock sampleEnv) \<and>
   (\<exists>h1 w1 h2 w2.
      getOrCreateSandbox sampleEnv Python None emptyWorld = (Inr h1, w1) \<and>
      length (sandboxes w1) = 1 \<and>
      getOrCreateSandbox sampleEnv Python None w1 = (Inr h2, w2) \<and>
      ident h2 = ident h1 \<and> length (sandboxes w2) = 1 \<and> lastUsed h1 \<le> lastUsed h2)"
proof -
  have a: "sandboxes emptyWorld = []" by (simp add: emptyWorld_def)
  have b: "create sampleEnv (calls emptyWorld) = Inr 0"
    by (simp add: emptyWorld_def sampleEnv_def)
  obtain h1 w1 h2 w2 where
    "getOrCreateSandbox sampleEnv Python None emptyWorld = (Inr h1, w1)"
    "sandboxes w1 = [(ident h1, h1)]"
    "getOrCreateSandbox sampleEnv Python None w1 = (Inr h2, w2)"
    "ident h2 = ident h1" "sandboxes w2 = [(ident h1, h2)]"
    "mono (clock sampleEnv) \<longrightarrow> lastUsed h1 \<le> lastUsed h2"
    using getOrCreateSandbox_creates_once_then_reuses [OF a b, of Python] by blast
  then have "getOrCreateSandbox sampleEnv Python None emptyWorld = (Inr h1, w1) \<and>
      length (sandboxes w1) = 1 \<and>
      getOrCreateSandbox sampleEnv Python None w1 = (Inr h2, w2) \<and>
      ident h2 = ident h1 \<and> length (sandboxes w2) = 1 \<and> lastUsed h1 \<le> lastUsed h2"
    using mono_sample_clock by simp
  then show ?thesis using a b mono_sample_clock by blast
qed

lemma find_language_key:
  assumes "find (\<lambda>(k, sb). language sb = lang) m = Some (k2, sb2)"
  shows "(k2, sb2) \<in> set m \<and> language sb2 = lang"
  using assms by (auto simp: find_Some_iff in_set_conv_nth)

lemma map_of_mapSet_other: "k' \<noteq> k \<Longrightarrow> map_of (mapSet m k v) k' = map_of m k'"
  by (simp add: map_of_mapSet)

lemma getOrCreateSandbox_no_id_language:
  assumes "getOrCreateSandbox e lang None w = (Inr sb, w')"
  shows "language sb = lang"
proof (cases "find (\<lambda>(k, sb). language sb = lang) (sandboxes w)")
  case None
  show ?thesis
  proof (cases "create e (calls w)")
    case (Inl err)
    then show ?thesis
      using assms getOrCreateSandbox_create_failed [OF None Inl] by simp
  next
    case (Inr s)
    then show ?thesis
      using assms getOrCreateSandbox_create [OF None Inr] by auto
  qed
next
  case (Some p)
  obtain k2 sb2 where p: "p = (k2, sb2)" by (cases p)
  have "language sb2 = lang"
    using find_language_key [of lang "sandboxes w" k2 sb2] Some p by simp
  then show ?thesis
    using assms getOrCreateSandbox_reuse [of lang w k2 sb2 e] Some p by auto
qed

lemma getOrCreateSandbox_no_id_keeps:
  assumes "map_of (sandboxes w) k = Some h" "language h \<noteq> lang"
    and "distinct (map fst (sandboxes w))" "uuidv4 e (uuids w) \<noteq> k"
  shows "map_of (sandboxes (snd (getOrCreateSandbox e lang None w))) k = Some h"
proof (cases "find (\<lambda>(k, sb). language sb = lang) (sandboxes w)")
  case None
  show ?thesis
  proof (cases "create e (calls w)")
    case (Inl err)
    then show ?thesis
      using assms(1) getOrCreateSandbox_create_failed [OF None Inl] by simp
  next
    case (Inr s)
    then show ?thesis
      using assms(1,4) getOrCreateSandbox_create [OF None Inr]
      by (simp add: map_of_mapSet)
  qed
next
  case (Some p)
  obtain k2 sb2 where p: "p = (k2, sb2)" by (cases p)
  have in_reg: "(k2, sb2) \<in> set (sandboxes w)" and l: "language sb2 = lang"
    using find_language_key [of lang "sandboxes w" k2 sb2] Some p by simp_all
  have "map_of (sandboxes w) k2 = Some sb2"
    using map_of_is_SomeI [OF assms(3) in_reg] .
  then have "k2 \<noteq> k" using assms(1,2) l by auto
  then show ?thesis
    using assms(1) getOrCreateSandbox_reuse [of lang w k2 sb2 e] Some p
    by (simp add: map_of_mapSet)
qed

text \<open>
  Claim C10. An acquisition with the identifier of a registered handle of another language
  first sets that handle's \<open>lastUsed\<close> to the clock reading of the lookup, changing no other
  field of it, no other handle and not the order of the registry; it then goes on as an
  acquisition without identifier from that state, so the handle returned has the requested
  language and is not the one looked up; the looked-up handle keeps the new \<open>lastUsed\<close> in
  the final registry. Identifiers of the registry are distinct and not empty, and a new
  identifier differs from the one looked up.
\<close>

theorem getOrCreateSandbox_mismatch_bumps:
  assumes "map_of (sandboxes w) k = Some h" and "k \<noteq> []" and "language h \<noteq> lang"
    and "distinct (map fst (sandboxes w))" and "uuidv4 e (uuids w) \<noteq> k"
  shows "\<exists>w1 r w'.
           getSandbox e k w = (Some (h\<lparr>lastUsed := clock e (ticks w)\<rparr>), w1) \<and>
           map_of (sandboxes w1) k = Some (h\<lparr>lastUsed := clock e (ticks w)\<rparr>) \<and>
           (\<forall>k'. k' \<noteq> k \<longrightarrow> map_of (sandboxes w1) k' = map_of (sandboxes w) k') \<and>
           map fst (sandboxes w1) = map fst (sandboxes w) \<and>
           getOrCreateSandbox e lang (Some k) w = (r, w') \<and>
           getOrCreateSandbox e lang None w1 = (r, w') \<and>
           (\<forall>sb. r = Inr sb \<longrightarrow> language sb = lang) \<and>
           map_of (sandboxes w') k = Some (h\<lparr>lastUsed := clock e (ticks w)\<rparr>)"
proof -
  let ?h = "h\<lparr>lastUsed := clock e (ticks w)\<rparr>"
  let ?w1 = "w\<lparr>ticks := Suc (ticks w), sandboxes := mapSet (sandboxes w) k ?h\<rparr>"
  obtain r w' where rw: "getOrCreateSandbox e lang None ?w1 = (r, w')"
    by (cases "getOrCreateSandbox e lang None ?w1")
  have g: "getSandbox e k w = (Some ?h, ?w1)"
    by (rule getSandbox_found [OF assms(1)])
  have key: "k \<in> fst ` set (sandboxes w)"
    using assms(1) by (cases "k \<in> fst ` set (sandboxes w)") (simp_all add: map_of_eq_None_iff [symmetric])
  have keys: "map fst (sandboxes ?w1) = map fst (sandboxes w)"
    using key by (simp add: keys_mapSet_present)
  have m1: "map_of (sandboxes ?w1) k = Some ?h" by (simp add: map_of_mapSet)
  have others: "\<forall>k'. k' \<noteq> k \<longrightarrow> map_of (sandboxes ?w1) k' = map_of (sandboxes w) k'"
    by (simp add: map_of_mapSet)
  have full: "getOrCreateSandbox e lang (Some k) w = (r, w')"
    using getOrCreateSandbox_mismatch [OF assms(1,2,3), of e] g rw by simp
  have lang: "\<forall>sb. r = Inr sb \<longrightarrow> language sb = lang"
    using getOrCreateSandbox_no_id_language rw by blast
  have d1: "distinct (map fst (sandboxes ?w1))" using keys assms(4) by simp
  have "map_of (sandboxes (snd (getOrCreateSandbox e lang None ?w1))) k = Some ?h"
    using getOrCreateSandbox_no_id_keeps [OF m1 _ d1, of lang e] assms(3,5) by simp
  then have final: "map_of (sandboxes w') k = Some ?h" using rw by simp
  show ?thesis
    using g m1 others keys full rw lang final by blast
qed

theorem getOrCreateSandbox_mismatch_bumps_witness:
  "map_of (sandboxes twoWorld) (js ''sandbox-0'') =
     Some \<lparr>ident = js ''sandbox-0'', sandbox = 0, createdAt = 1000, lastUsed = 1002,
           language = Python\<rparr> \<and>
   js ''sandbox-0'' \<noteq> [] \<and>
   distinct (map fst (sandboxes twoWorld)) \<and>
   uuidv4 sampleEnv (uuids twoWorld) \<noteq> js ''sandbox-0'' \<and>
   (\<exists>r w'. getOrCreateSandbox sampleEnv JavaScript (Some (js ''sandbox-0'')) twoWorld = (r, w') \<and>
      (\<forall>sb. r = Inr sb \<longrightarrow> language sb = JavaScript) \<and>
      map_of (sandboxes w') (js ''sandbox-0'') =
        Some \<lparr>ident = js ''sandbox-0'', sandbox = 0, createdAt = 1000, lastUsed = 1006,
              language = Python\<rparr>)"
proof -
  let ?h = "\<lparr>ident = js ''sandbox-0'', sandbox = 0, createdAt = 1000, lastUsed = 1002,
             language = Python\<rparr>"
  have a: "map_of (sandboxes twoWorld) (js ''sandbox-0'') = Some ?h"
    by (simp add: twoWorld_def)
  have b: "js ''sandbox-0'' \<noteq> []" by (simp add: js_def)
  have c: "language ?h \<noteq> JavaScript" by simp
  have d: "distinct (map fst (sandboxes twoWorld))" by (simp add: twoWorld_def js_def)
  have u: "uuidv4 sampleEnv (uuids twoWorld) \<noteq> js ''sandbox-0''"
    by (simp add: sampleEnv_def twoWorld_def showNat.simps js_def digit_def)
  have t: "clock sampleEnv (ticks twoWorld) = 1006" by (simp add: sampleEnv_def twoWorld_def)
  obtain r w' where
    "getOrCreateSandbox sampleEnv JavaScript (Some (js ''sandbox-0'')) twoWorld = (r, w')"
    "\<forall>sb. r = Inr sb \<longrightarrow> language sb = JavaScript"
    "map_of (sandboxes w') (js ''sandbox-0'') = Some (?h\<lparr>lastUsed := 1006\<rparr>)"
    using getOrCreateSandbox_mismatch_bumps [OF a b c d u] t by auto
  then have "\<exists>r w'. getOrCreateSandbox sampleEnv JavaScript (Some (js ''sandbox-0'')) twoWorld = (r, w') \<and>
      (\<forall>sb. r = Inr sb \<longrightarrow> language sb = JavaScript) \<and>
      map_of (sandboxes w') (js ''sandbox-0'') =
        Some \<lparr>ident = js ''sandbox-0'', sandbox = 0, createdAt = 1000, lastUsed = 1006,
              language = Python\<rparr>"
    by auto
  then show ?thesis using a b d u by simp
qed

section \<open>E2BTools: sandbox identifiers that are not registered\<close>

lemma executeTool_getSandboxInfo_missing:
  assumes "map_of (sandboxes w) k = None" "k \<noteq> []"
  shows "executeTool e (GetSandboxInfo (Some k)) w =
         (\<lparr>content_text = js ''Error: Sandbox '' @ k @ js '' not found'', isError = True\<rparr>, w)"
  using assms
  by (simp add: executeTool_def dispatch_def getSandboxInfo_def getSandbox_missing message_def
      js_def)

lemma unknown_id_executePython:
  assumes "map_of (sandboxes w) k = None"
  shows "executePython e code (Some k) w = executePython e code None w"
  unfolding executePython_def getOrCreateSandbox_missing_id [OF assms] by (rule refl)

lemma unknown_id_executeJavaScript:
  assumes "map_of (sandboxes w) k = None"
  shows "executeJavaScript e code (Some k) w = executeJavaScript e code None w"
  unfolding executeJavaScript_def getOrCreateSandbox_missing_id [OF assms] by (rule refl)

lemma unknown_id_createFile:
  assumes "map_of (sandboxes w) k = None"
  shows "createFile e path content (Some k) w = createFile e path content None w"
  unfolding createFile_def getOrCreateSandbox_missing_id [OF assms] by (rule refl)

lemma unknown_id_readFile:
  assumes "map_of (sandboxes w) k = None"
  shows "readFile e path (Some k) w = readFile e path None w"
  unfolding readFile_def getOrCreateSandbox_missing_id [OF assms] by (rule refl)

lemma unknown_id_listFiles:
  assumes "map_of (sandboxes w) k = None"
  shows "listFiles e path (Some k) w = listFiles e path None w"
  unfolding listFiles_def getOrCreateSandbox_missing_id [OF assms] by (rule refl)

lemma unknown_id_installPackages:
  assumes "map_of (sandboxes w) k = None"
  shows "installPackages e packages lang (Some k) w = installPackages e packages lang None w"
  unfolding installPackages_def getOrCreateSandbox_missing_id [OF assms] by (rule refl)

text \<open>
  Claim C4, as amended. Only \<open>get_sandbox_info\<close> reports an identifier that is not in the
  registry: it fails with the text \<open>Error: Sandbox <id> not found\<close> and leaves the state as
  it was. For the six other tools the unknown identifier has no effect: they behave exactly
  as without an identifier, that is, they reuse the first handle of the language or create
  one.
\<close>

theorem unknown_sandbox_id:
  assumes "map_of (sandboxes w) k = None" and "k \<noteq> []"
  shows "executeTool e (GetSandboxInfo (Some k)) w =
           (\<lparr>content_text = js ''Error: Sandbox '' @ k @ js '' not found'', isError = True\<rparr>, w) \<and>
         getOrCreateSandbox e lang (Some k) w = getOrCreateSandbox e lang None w \<and>
         executeTool e (ExecutePython code (Some k)) w = executeTool e (ExecutePython code None) w \<and>
         executeTool e (ExecuteJavaScript code (Some k)) w =
           executeTool e (ExecuteJavaScript code None) w \<and>
         executeTool e (CreateFile path content (Some k)) w =
           executeTool e (CreateFile path content None) w \<and>
         executeTool e (ReadFile path (Some k)) w = executeTool e (ReadFile path None) w \<and>
         executeTool e (ListFiles path (Some k)) w = executeTool e (ListFiles path None) w \<and>
         executeTool e (InstallPackages packages lang (Some k)) w =
           executeTool e (InstallPackages packages lang None) w"
proof -
  have info: "executeTool e (GetSandboxInfo (Some k)) w =
      (\<lparr>content_text = js ''Error: Sandbox '' @ k @ js '' not found'', isError = True\<rparr>, w)"
    by (rule executeTool_getSandboxInfo_missing [OF assms])
  have others:
    "executeTool e (ExecutePython code (Some k)) w = executeTool e (ExecutePython code None) w"
    "executeTool e (ExecuteJavaScript code (Some k)) w =
       executeTool e (ExecuteJavaScript code None) w"
    "executeTool e (CreateFile path content (Some k)) w =
       executeTool e (CreateFile path content None) w"
    "executeTool e (ReadFile path (Some k)) w = executeTool e (ReadFile path None) w"
    "executeTool e (ListFiles path (Some k)) w = executeTool e (ListFiles path None) w"
    "executeTool e (InstallPackages packages lang (Some k)) w =
       executeTool e (InstallPackages packages lang None) w"
    using assms(1)
    by (simp_all add: executeTool_def dispatch_def unknown_id_executePython
        unknown_id_executeJavaScript unknown_id_createFile unknown_id_readFile
        unknown_id_listFiles unknown_id_installPackages)
  show ?thesis
    using info others getOrCreateSandbox_missing_id [OF assms(1), of e lang] by simp
qed

lemma sample_first_acquisition:
  "getOrCreateSandbox sampleEnv lang sandbox_id emptyWorld =
     (Inr \<lparr>ident = js ''sandbox-0'', sandbox = 0, createdAt = 1000, lastUsed = 1002,
           language = lang\<rparr>,
      emptyWorld\<lparr>calls := [Create], uuids := 1, ticks := 3,
        sandboxes := [(js ''sandbox-0'',
          \<lparr>ident = js ''sandbox-0'', sandbox = 0, createdAt = 1000, lastUsed = 1002,
           language = lang\<rparr>)]\<rparr>)"
proof -
  have m: "map_of (sandboxes emptyWorld) k = None" for k by (simp add: emptyWorld_def)
  have n: "find (\<lambda>(k, sb). language sb = lang) (sandboxes emptyWorld) = None"
    by (simp add: emptyWorld_def)
  have c: "create sampleEnv (calls emptyWorld) = Inr 0"
    by (simp add: sampleEnv_def emptyWorld_def)
  have u: "uuidv4 sampleEnv (uuids emptyWorld) = js ''sandbox-0''"
    by (simp add: sampleEnv_def emptyWorld_def showNat.simps js_def digit_def)
  have "getOrCreateSandbox sampleEnv lang sandbox_id emptyWorld =
        getOrCreateSandbox sampleEnv lang None emptyWorld"
    by (cases sandbox_id) (simp_all add: getOrCreateSandbox_missing_id [OF m])
  then show ?thesis
    using getOrCreateSandbox_create [OF n c] u
    by (simp add: sampleEnv_def emptyWorld_def numeral_3_eq_3)
qed

text \<open>
  The claim as stated fails: \<open>read_file\<close> with an identifier that is not registered succeeds
  on a newly created sandbox.
\<close>

theorem unknown_sandbox_id_counterexample:
  "map_of (sandboxes emptyWorld) (js ''missing'') = None \<and>
   \<not> isError (fst (executeTool sampleEnv
                   (ReadFile (Some (js ''notes.txt'')) (Some (js ''missing''))) emptyWorld)) \<and>
   map fst (sandboxes (snd (executeTool sampleEnv
                   (ReadFile (Some (js ''notes.txt'')) (Some (js ''missing''))) emptyWorld))) =
     [js ''sandbox-0''] \<and>
   calls (snd (executeTool sampleEnv
                   (ReadFile (Some (js ''notes.txt'')) (Some (js ''missing''))) emptyWorld)) =
     [Create, FilesRead 0 (js ''notes.txt'')]"
proof -
  have p: "js ''notes.txt'' \<noteq> []" by (simp add: js_def)
  show ?thesis
    using p
    by (simp add: executeTool_def dispatch_def readFile_def sample_first_acquisition remote_def
        Let_def)
       (simp add: sampleEnv_def emptyWorld_def)
qed

theorem unknown_sandbox_id_witness:
  "map_of (sandboxes twoWorld) (js ''missing'') = None \<and> js ''missing'' \<noteq> [] \<and>
   executeTool sampleEnv (GetSandboxInfo (Some (js ''missing''))) twoWorld =
     (\<lparr>content_text = js ''Error: Sandbox missing not found'', isError = True\<rparr>, twoWorld)"
proof -
  have a: "map_of (sandboxes twoWorld) (js ''missing'') = None"
    by (simp add: twoWorld_def js_def)
  have b: "js ''missing'' \<noteq> []" by (simp add: js_def)
  show ?thesis
    using a b unknown_sandbox_id [OF a b, of sampleEnv] by (simp add: js_def)
qed

section \<open>E2BTools: validation before remote calls\<close>

lemma traversal_path_invalid:
  "validateFilePath (js ''../../etc/passwd'') =
     invalid (js ''Directory traversal not allowed in file paths'')"
  by (simp add: validateFilePath_def MAX_FILENAME_LENGTH_def trim_def isWhiteSpace_def js_def
      startsWith_def)

text \<open>
  Claim C2 does not hold for \<open>read_file\<close> and \<open>list_files\<close>: neither calls
  \<open>validateFilePath\<close>. With a path that the validator rejects, \<open>read_file\<close> creates a sandbox
  and reads the file, and \<open>list_files\<close> lists the directory, while \<open>create_file\<close> rejects the
  same path before any remote call.
\<close>

theorem readFile_listFiles_skip_validation:
  "\<not> isValid (validateFilePath (js ''../../etc/passwd'')) \<and>
   executeTool sampleEnv (ReadFile (Some (js ''../../etc/passwd'')) None) emptyWorld =
     (\<lparr>content_text =
         js ''File: ../../etc/passwd\<newline>Sandbox ID: sandbox-0\<newline>Content length: 4 bytes\<newline>\<newline>data'',
       isError = False\<rparr>,
      emptyWorld\<lparr>calls := [Create, FilesRead 0 (js ''../../etc/passwd'')], uuids := 1, ticks := 3,
        sandboxes := [(js ''sandbox-0'',
          \<lparr>ident = js ''sandbox-0'', sandbox = 0, createdAt = 1000, lastUsed = 1002,
           language = Python\<rparr>)]\<rparr>) \<and>
   calls (snd (executeTool sampleEnv (ListFiles (Some (js ''../../etc/passwd'')) None) emptyWorld)) =
     [Create, FilesList 0 (js ''../../etc/passwd'')] \<and>
   executeTool sampleEnv
       (CreateFile (Some (js ''../../etc/passwd'')) (Some (js ''x'')) None) emptyWorld =
     (\<lparr>content_text =
         js ''Error: Path validation failed: Directory traversal not allowed in file paths'',
       isError = True\<rparr>,
      emptyWorld\<lparr>ticks := 1, events := [js ''file_path_validation_failed'']\<rparr>)"
proof -
  have p: "js ''../../etc/passwd'' \<noteq> []" by (simp add: js_def)
  have v: "\<not> isValid (validateFilePath (js ''../../etc/passwd''))"
    by (simp add: traversal_path_invalid invalid_def)
  have r: "executeTool sampleEnv (ReadFile (Some (js ''../../etc/passwd'')) None) emptyWorld =
     (\<lparr>content_text =
         js ''File: ../../etc/passwd\<newline>Sandbox ID: sandbox-0\<newline>Content length: 4 bytes\<newline>\<newline>data'',
       isError = False\<rparr>,
      emptyWorld\<lparr>calls := [Create, FilesRead 0 (js ''../../etc/passwd'')], uuids := 1, ticks := 3,
        sandboxes := [(js ''sandbox-0'',
          \<lparr>ident = js ''sandbox-0'', sandbox = 0, createdAt = 1000, lastUsed = 1002,
           language = Python\<rparr>)]\<rparr>)"
    using p
    by (simp add: executeTool_def dispatch_def readFile_def sample_first_acquisition remote_def
        Let_def)
       (simp add: sampleEnv_def emptyWorld_def showNat.simps js_def digit_def)
  have l: "calls (snd (executeTool sampleEnv (ListFiles (Some (js ''../../etc/passwd'')) None)
              emptyWorld)) = [Create, FilesList 0 (js ''../../etc/passwd'')]"
    by (simp add: executeTool_def dispatch_def listFiles_def sample_first_acquisition remote_def
        Let_def)
       (simp add: sampleEnv_def emptyWorld_def)
  have c: "executeTool sampleEnv
       (CreateFile (Some (js ''../../etc/passwd'')) (Some (js ''x'')) None) emptyWorld =
     (\<lparr>content_text =
         js ''Error: Path validation failed: Directory traversal not allowed in file paths'',
       isError = True\<rparr>,
      emptyWorld\<lparr>ticks := 1, events := [js ''file_path_validation_failed'']\<rparr>)"
    using p
    by (simp add: executeTool_def dispatch_def createFile_def traversal_path_invalid
        invalid_def reasonText_def logSecurityEvent_def now_def message_def Let_def)
       (simp add: emptyWorld_def js_def)
  show ?thesis using v r l c by simp
qed

section \<open>E2BTools: sanitizing and truncation of the output\<close>

lemma dropWhile_keeps: "c \<in> set s \<Longrightarrow> \<not> P c \<Longrightarrow> c \<in> set (dropWhile P s)"
  by (induction s) auto

lemma trim_nonblank:
  assumes "c \<in> set s" "\<not> isWhiteSpace c"
  shows "trim s \<noteq> []"
proof -
  have "c \<in> set (rev (dropWhile isWhiteSpace s))"
    using assms by (simp add: dropWhile_keeps)
  then have "c \<in> set (dropWhile isWhiteSpace (rev (dropWhile isWhiteSpace s)))"
    using assms(2) by (rule dropWhile_keeps)
  then have "0 < length (dropWhile isWhiteSpace (rev (dropWhile isWhiteSpace s)))"
    by (rule length_pos_if_in_set)
  then have "dropWhile isWhiteSpace (rev (dropWhile isWhiteSpace s)) \<noteq> []"
    by simp
  then show ?thesis by (simp add: trim_def)
qed

lemma replaceAll_inert:
  assumes "\<And>s. m (c # s) = None"
  shows "replaceAll m r (replicate n c @ t) = replicate n c @ replaceAll m r t"
  by (induction n) (simp_all add: assms)

lemma x_inert_ansi: "match_items ansiEscapePattern (0x78 # s) = None"
  by (simp add: ansiEscapePattern_def one_def)

lemma x_inert_openai: "match_items openaiKey (0x78 # s) = None"
  by (simp add: openaiKey_def lit_def one_def)

lemma x_inert_github: "match_items githubToken (0x78 # s) = None"
  by (simp add: githubToken_def lit_def one_def)

lemma x_inert_password: "match_items (assignment ''password'') (0x78 # s) = None"
  by (simp add: assignment_def liti_def one_def upperAscii_def isLower_def)

lemma x_inert_api_key: "match_items (assignment ''api_key'') (0x78 # s) = None"
  by (simp add: assignment_def liti_def one_def upperAscii_def isLower_def)

lemma sanitizeOutput_passes:
  "sanitizeOutput s =
     replaceAll (match_items (assignment ''api_key'')) (js ''api_key: \"***HIDDEN***\"'')
      (replaceAll (match_items (assignment ''password'')) (js ''password: \"***HIDDEN***\"'')
        (replaceAll (match_items githubToken) (js ''ghp_***HIDDEN***'')
          (replaceAll (match_items openaiKey) (js ''sk-***HIDDEN***'')
            (replaceAll (match_items ansiEscapePattern) [] s))))"
  by (simp add: sanitizeOutput_def outputSecretPatterns_def)

lemma sanitizeOutput_xs:
  "sanitizeOutput (replicate n 0x78 @ t) = replicate n 0x78 @ sanitizeOutput t"
  by (simp add: sanitizeOutput_passes replaceAll_inert x_inert_ansi x_inert_openai
      x_inert_github x_inert_password x_inert_api_key)

lemma ansiReset_match: "match_items ansiEscapePattern (ansiReset @ s) = Some 4"
  by (simp add: ansiEscapePattern_def ansiReset_def js_def one_def star_def isDigit_def
      isLetter_def isLower_def isUpper_def)


lemmas pattern_defs =
  ansiEscapePattern_def openaiKey_def githubToken_def assignment_def lit_def liti_def one_def
  star_def plus_def upperAscii_def isLower_def isUpper_def isLetter_def isDigit_def isAlnum_def
  isWhiteSpace_def isQuote_def oneOf_def

lemma strip_ansiReset:
  "replaceAll (match_items ansiEscapePattern) [] (ansiReset @ s) =
   replaceAll (match_items ansiEscapePattern) [] s"
proof -
  have m: "match_items ansiEscapePattern (0x1B # 0x5B # 0x30 # 0x6D # s) = Some (Suc 3)"
    using ansiReset_match [of s] by (simp add: ansiReset_def js_def)
  have "replaceAll (match_items ansiEscapePattern) [] (0x1B # 0x5B # 0x30 # 0x6D # s) =
        replaceAll (match_items ansiEscapePattern) [] s"
    by (simp add: m)
  then show ?thesis by (simp add: ansiReset_def js_def)
qed

lemma sanitize_marker:
  "sanitizeOutput (js ''\<newline>... (output truncated)'') = js ''\<newline>... (output truncated)''"
  by (simp add: sanitizeOutput_passes pattern_defs js_def)

lemma sanitize_newline: "sanitizeOutput (js ''\<newline>'') = js ''\<newline>''"
  by (simp add: sanitizeOutput_passes pattern_defs js_def)

lemma sanitize_hi: "sanitizeOutput (js ''hi\<newline>'') = js ''hi\<newline>''"
  by (simp add: sanitizeOutput_passes pattern_defs js_def)

lemma sanitizeOutput_ansiReset: "sanitizeOutput (ansiReset @ s) = sanitizeOutput s"
  by (simp add: sanitizeOutput_passes strip_ansiReset)


text \<open>
  Claim C1, as amended. For \<open>execute_python\<close>, when the code passes validation, a sandbox
  is acquired and the remote run returns a result, the output block of the returned text is
  \<open>sanitizeOutput (truncateOutput combined)\<close>: the combined output is truncated first and
  the sanitizer runs on the truncated text.
\<close>

theorem executePython_sanitizes_truncated_output:
  assumes "code \<noteq> []" and "isValid (fst (validateCode (hit e) code Python))"
    and "getOrCreateSandbox e Python sandbox_id w = (Inr sb, w1)"
    and "runCode e (calls w1) (sandbox sb) code None = Inr result"
  shows "fst (executePython e (Some code) sandbox_id w) =
           Inr \<lparr>content_text =
                   completedText (clock e (Suc (ticks w1)) - clock e (ticks w1)) (ident sb)
                     (sanitizeOutput (truncateOutput (fst (collectOutput result)))),
                 isError = snd (collectOutput result)\<rparr>"
  using assms
  by (simp add: executePython_def now_def remote_def Let_def split_beta)

lemma executeJavaScript_completed:
  assumes "code \<noteq> []" and "isValid (fst (validateCode (hit e) code JavaScript))"
    and "getOrCreateSandbox e JavaScript sandbox_id w = (Inr sb, w1)"
    and "runCode e (calls w1) (sandbox sb) code (Some JavaScript) = Inr result"
  shows "content_text (fst (executeTool e (ExecuteJavaScript (Some code) sandbox_id) w)) =
           completedText (clock e (Suc (ticks w1)) - clock e (ticks w1)) (ident sb)
             (truncateOutput (fst (collectOutput result)))"
  using assms
  by (simp add: executeTool_def dispatch_def executeJavaScript_def now_def remote_def Let_def
      split_beta)

lemma executePython_completed:
  assumes "code \<noteq> []" and "isValid (fst (validateCode (hit e) code Python))"
    and "getOrCreateSandbox e Python sandbox_id w = (Inr sb, w1)"
    and "runCode e (calls w1) (sandbox sb) code None = Inr result"
  shows "content_text (fst (executeTool e (ExecutePython (Some code) sandbox_id) w)) =
           completedText (clock e (Suc (ticks w1)) - clock e (ticks w1)) (ident sb)
             (sanitizeOutput (truncateOutput (fst (collectOutput result))))"
  using assms
  by (simp add: executeTool_def dispatch_def executePython_def now_def remote_def Let_def
      split_beta)

lemma sample_runCode:
  "runCode sampleEnv history s code lang =
     Inr \<lparr>exec_logs = Some \<lparr>stdout = [code], stderr = []\<rparr>, exec_results = [],
          exec_error = None\<rparr>"
  by (simp add: sampleEnv_def)

lemma sample_collectOutput:
  "collectOutput \<lparr>exec_logs = Some \<lparr>stdout = [code], stderr = []\<rparr>, exec_results = [],
                  exec_error = None\<rparr> = (code @ js ''\<newline>'', False)"
  by (simp add: collectOutput_def)

lemma longOutputCode_valid:
  "longOutputCode \<noteq> [] \<and> isValid (fst (validateCode h longOutputCode lang))"
proof -
  have "(0x78 :: cu) \<in> set longOutputCode" by (simp add: longOutputCode_def)
  moreover have "\<not> isWhiteSpace 0x78" by (simp add: isWhiteSpace_def)
  ultimately have "trim longOutputCode \<noteq> []" by (rule trim_nonblank)
  moreover have "length longOutputCode \<le> 50000"
    by (simp add: longOutputCode_def ansiReset_def js_def)
  ultimately show ?thesis
    by (auto simp add: validateCode_within valid_def longOutputCode_def ansiReset_def)
qed

lemma shortOutputCode_valid:
  "shortOutputCode \<noteq> [] \<and> isValid (fst (validateCode h shortOutputCode lang))"
proof -
  have "trim shortOutputCode \<noteq> []"
    by (simp add: shortOutputCode_def ansiReset_def trim_def isWhiteSpace_def js_def)
  moreover have "length shortOutputCode \<le> 50000"
    by (simp add: shortOutputCode_def ansiReset_def js_def)
  ultimately show ?thesis
    by (auto simp add: validateCode_within valid_def shortOutputCode_def ansiReset_def)
qed

lemma truncate_long:
  "truncateOutput (longOutputCode @ js ''\<newline>'') =
     ansiReset @ replicate 9996 0x78 @ js ''\<newline>... (output truncated)''"
  by (simp add: truncateOutput_def MAX_OUTPUT_LENGTH_def longOutputCode_def ansiReset_def js_def)

lemma sanitize_truncate_long:
  "sanitizeOutput (truncateOutput (longOutputCode @ js ''\<newline>'')) =
     replicate 9996 0x78 @ js ''\<newline>... (output truncated)''"
  by (simp only: truncate_long sanitizeOutput_ansiReset sanitizeOutput_xs sanitize_marker)

lemma truncate_sanitize_long:
  "truncateOutput (sanitizeOutput (longOutputCode @ js ''\<newline>'')) =
     replicate 10000 0x78 @ js ''\<newline>... (output truncated)''"
proof -
  have "sanitizeOutput (longOutputCode @ js ''\<newline>'') = replicate 10000 0x78 @ js ''\<newline>''"
    by (simp only: longOutputCode_def append_assoc sanitizeOutput_ansiReset sanitizeOutput_xs
        sanitize_newline)
  then show ?thesis
    by (simp add: truncateOutput_def MAX_OUTPUT_LENGTH_def js_def)
qed


lemma sample_clock: "clock sampleEnv k = 1000 + int k"
  by (simp add: sampleEnv_def)

lemma completedText_differs:
  "o1 \<noteq> [] \<Longrightarrow> o2 \<noteq> [] \<Longrightarrow> o1 \<noteq> o2 \<Longrightarrow> completedText t k o1 \<noteq> completedText t k o2"
  by (simp add: completedText_def orNoOutput_def)

text \<open>
  The claim as stated fails for both tools. With an output of an escape sequence and 10000
  letters, \<open>execute_python\<close> returns 9996 letters and the truncation marker, where
  truncation after sanitizing would keep all 10000 letters; \<open>execute_javascript\<close> returns the
  escape sequence as it came, never calling the sanitizer.
\<close>

theorem sanitize_before_truncate_counterexample:
  "content_text (fst (executeTool sampleEnv (ExecutePython (Some longOutputCode) None) emptyWorld)) =
     completedText 1 (js ''sandbox-0'')
       (replicate 9996 0x78 @ js ''\<newline>... (output truncated)'') \<and>
   truncateOutput (sanitizeOutput (longOutputCode @ js ''\<newline>'')) =
     replicate 10000 0x78 @ js ''\<newline>... (output truncated)'' \<and>
   content_text (fst (executeTool sampleEnv (ExecutePython (Some longOutputCode) None) emptyWorld)) \<noteq>
     completedText 1 (js ''sandbox-0'')
       (truncateOutput (sanitizeOutput (longOutputCode @ js ''\<newline>''))) \<and>
   content_text (fst (executeTool sampleEnv (ExecuteJavaScript (Some shortOutputCode) None)
       emptyWorld)) =
     completedText 1 (js ''sandbox-0'') (ansiReset @ js ''hi\<newline>'') \<and>
   truncateOutput (sanitizeOutput (shortOutputCode @ js ''\<newline>'')) = js ''hi\<newline>'' \<and>
   content_text (fst (executeTool sampleEnv (ExecuteJavaScript (Some shortOutputCode) None)
       emptyWorld)) \<noteq>
     completedText 1 (js ''sandbox-0'')
       (truncateOutput (sanitizeOutput (shortOutputCode @ js ''\<newline>'')))"
proof -
  let ?w1 = "emptyWorld\<lparr>calls := [Create], uuids := 1, ticks := 3,
        sandboxes := [(js ''sandbox-0'',
          \<lparr>ident = js ''sandbox-0'', sandbox = 0, createdAt = 1000, lastUsed = 1002,
           language = Python\<rparr>)]\<rparr>"
  let ?w2 = "emptyWorld\<lparr>calls := [Create], uuids := 1, ticks := 3,
        sandboxes := [(js ''sandbox-0'',
          \<lparr>ident = js ''sandbox-0'', sandbox = 0, createdAt = 1000, lastUsed = 1002,
           language = JavaScript\<rparr>)]\<rparr>"
  have py: "content_text (fst (executeTool sampleEnv (ExecutePython (Some longOutputCode) None)
                emptyWorld)) =
      completedText 1 (js ''sandbox-0'')
        (replicate 9996 0x78 @ js ''\<newline>... (output truncated)'')"
    using executePython_completed [of longOutputCode sampleEnv None emptyWorld _ ?w1,
        OF _ _ sample_first_acquisition sample_runCode] longOutputCode_valid
    by (simp add: sample_collectOutput sanitize_truncate_long sample_clock)
  have js: "content_text (fst (executeTool sampleEnv (ExecuteJavaScript (Some shortOutputCode) None)
                emptyWorld)) =
      completedText 1 (js ''sandbox-0'') (ansiReset @ js ''hi\<newline>'')"
    using executeJavaScript_completed [of shortOutputCode sampleEnv None emptyWorld _ ?w2,
        OF _ _ sample_first_acquisition sample_runCode] shortOutputCode_valid
    by (simp add: sample_collectOutput sample_clock)
       (simp add: truncateOutput_def MAX_OUTPUT_LENGTH_def shortOutputCode_def ansiReset_def
          js_def)
  have ts: "truncateOutput (sanitizeOutput (shortOutputCode @ js ''\<newline>'')) = js ''hi\<newline>''"
  proof -
    have "sanitizeOutput (shortOutputCode @ js ''\<newline>'') = sanitizeOutput (js ''hi\<newline>'')"
      using sanitizeOutput_ansiReset [of "js ''hi\<newline>''"]
      by (simp add: shortOutputCode_def js_def)
    then have eq: "sanitizeOutput (shortOutputCode @ js ''\<newline>'') = js ''hi\<newline>''"
      by (simp only: sanitize_hi)
    have "truncateOutput (js ''hi\<newline>'') = js ''hi\<newline>''"
      by (simp add: truncateOutput_def MAX_OUTPUT_LENGTH_def js_def)
    then show ?thesis by (simp only: eq)
  qed
  have d1: "completedText 1 (js ''sandbox-0'')
              (replicate 9996 0x78 @ js ''\<newline>... (output truncated)'') \<noteq>
            completedText 1 (js ''sandbox-0'')
              (replicate 10000 0x78 @ js ''\<newline>... (output truncated)'')"
    by (rule completedText_differs) (simp_all add: js_def)
  have d2: "completedText 1 (js ''sandbox-0'') (ansiReset @ js ''hi\<newline>'') \<noteq>
            completedText 1 (js ''sandbox-0'') (js ''hi\<newline>'')"
    by (rule completedText_differs) (simp_all add: js_def ansiReset_def)
  show ?thesis
    using d1 d2 by (simp only: py js ts truncate_sanitize_long simp_thms)
qed

theorem executePython_sanitizes_truncated_output_witness:
  "longOutputCode \<noteq> [] \<and>
   isValid (fst (validateCode (hit sampleEnv) longOutputCode Python)) \<and>
   fst (getOrCreateSandbox sampleEnv Python None emptyWorld) =
     Inr \<lparr>ident = js ''sandbox-0'', sandbox = 0, createdAt = 1000, lastUsed = 1002,
           language = Python\<rparr> \<and>
   runCode sampleEnv [Create] 0 longOutputCode None =
     Inr \<lparr>exec_logs = Some \<lparr>stdout = [longOutputCode], stderr = []\<rparr>, exec_results = [],
          exec_error = None\<rparr> \<and>
   fst (executePython sampleEnv (Some longOutputCode) None emptyWorld) =
     Inr \<lparr>content_text =
             completedText 1 (js ''sandbox-0'')
               (sanitizeOutput (truncateOutput (longOutputCode @ js ''\<newline>''))),
           isError = False\<rparr>"
proof -
  let ?sb = "\<lparr>ident = js ''sandbox-0'', sandbox = 0, createdAt = 1000, lastUsed = 1002,
           language = Python\<rparr>"
  let ?w1 = "emptyWorld\<lparr>calls := [Create], uuids := 1, ticks := 3,
        sandboxes := [(js ''sandbox-0'', ?sb)]\<rparr>"
  let ?res = "\<lparr>exec_logs = Some \<lparr>stdout = [longOutputCode], stderr = []\<rparr>, exec_results = [],
          exec_error = None\<rparr>"
  have a: "longOutputCode \<noteq> []" using longOutputCode_valid by simp
  have b: "isValid (fst (validateCode (hit sampleEnv) longOutputCode Python))"
    using longOutputCode_valid by simp
  have c: "getOrCreateSandbox sampleEnv Python None emptyWorld = (Inr ?sb, ?w1)"
    by (rule sample_first_acquisition)
  have d: "runCode sampleEnv (calls ?w1) (sandbox ?sb) longOutputCode None = Inr ?res"
    by (rule sample_runCode)
  have "fst (executePython sampleEnv (Some longOutputCode) None emptyWorld) =
     Inr \<lparr>content_text =
             completedText 1 (js ''sandbox-0'')
               (sanitizeOutput (truncateOutput (longOutputCode @ js ''\<newline>''))),
           isError = False\<rparr>"
    using executePython_sanitizes_truncated_output [OF a b c d]
    by (simp add: sample_collectOutput sample_clock)
  then show ?thesis using a b c d by simp
qed

end
